theory Spec2Isabelle
  imports Complex_Main "HOL-Library.Word"
begin

unbundle bit_operations_syntax

section \<open>Machine types\<close>

text \<open>
  C++ \<open>int\<close> and \<open>uint32_t\<close> are 32-bit words (read with \<open>sint\<close> and \<open>unat\<close>),
  \<open>uint16_t\<close> a 16-bit word and \<open>uint8_t\<close> an 8-bit word. A conversion between integer
  types of different width is \<open>ucast\<close>: it truncates modulo the width of the target
  and zero-extends an unsigned source.
\<close>

type_synonym c_int = "32 word"
type_synonym uint32_t = "32 word"
type_synonym uint16_t = "16 word"
type_synonym uint8_t = "8 word"

section \<open>config/config.h: the options and the store\<close>

datatype ConfigOption =
    USE_QAT_COMPRESS
  | USE_QAT_UNCOMPRESS
  | USE_IAA_COMPRESS
  | USE_IAA_UNCOMPRESS
  | USE_ZLIB_COMPRESS
  | USE_ZLIB_UNCOMPRESS
  | IAA_COMPRESS_PERCENTAGE
  | IAA_UNCOMPRESS_PERCENTAGE
  | IAA_PREPEND_EMPTY_BLOCK
  | QAT_PERIODICAL_POLLING
  | QAT_COMPRESSION_LEVEL
  | LOG_LEVEL
  | LOG_STATS_SAMPLES
  | CONFIG_MAX

text \<open>The numeric value of an enumerator: its position in the enum.\<close>

fun option_index :: "ConfigOption \<Rightarrow> nat" where
  "option_index USE_QAT_COMPRESS = 0"
| "option_index USE_QAT_UNCOMPRESS = 1"
| "option_index USE_IAA_COMPRESS = 2"
| "option_index USE_IAA_UNCOMPRESS = 3"
| "option_index USE_ZLIB_COMPRESS = 4"
| "option_index USE_ZLIB_UNCOMPRESS = 5"
| "option_index IAA_COMPRESS_PERCENTAGE = 6"
| "option_index IAA_UNCOMPRESS_PERCENTAGE = 7"
| "option_index IAA_PREPEND_EMPTY_BLOCK = 8"
| "option_index QAT_PERIODICAL_POLLING = 9"
| "option_index QAT_COMPRESSION_LEVEL = 10"
| "option_index LOG_LEVEL = 11"
| "option_index LOG_STATS_SAMPLES = 12"
| "option_index CONFIG_MAX = 13"

text \<open>
  An output file stream of the logger (\<open>std::ofstream\<close>): whether it is open, and
  the text written to it so far.
\<close>

record ofstream =
  is_open :: bool
  written :: string

text \<open>
  The process-wide variables of the library: \<open>config::configs\<close> (an array of
  \<open>CONFIG_MAX\<close> = 13 \<open>uint16_t\<close>), \<open>config::log_file\<close>, the logger's
  \<open>log_file_stream\<close> (a \<open>unique_ptr\<close>: \<open>None\<close> is \<open>nullptr\<close>) and the text written to
  \<open>std::cout\<close>.
\<close>

record globals =
  configs :: "uint16_t list"
  log_file :: string
  log_file_stream :: "ofstream option"
  std_cout :: string

text \<open>The initial values of \<open>configs\<close> and \<open>log_file\<close> (config.cpp); no log file is open.\<close>

definition default_configs :: "uint16_t list" where
  "default_configs = [1, 1, 0, 0, 1, 1, 50, 50, 0, 0, 1, 2, 1000]"

definition initial_globals :: globals where
  "initial_globals =
     \<lparr>configs = default_configs, log_file = '''', log_file_stream = None, std_cout = ''''\<rparr>"

text \<open>The table \<open>config_names\<close> of config.cpp, entry by entry in the order of the source.\<close>

definition config_names :: "string list" where
  "config_names =
     [''use_qat_compress'',        ''use_qat_uncompress'',
      ''use_iaa_compress'',        ''use_iaa_uncompress'',
      ''use_zlib_compress'',       ''USE_ZLIB_UNCOMPRESS'',
      ''use_zlib_uncompress'',     ''iaa_compress_percentage'',
      ''iaa_prepend_empty_block'', ''qat_periodical_polling'',
      ''qat_compression_level'',   ''log_level'',
      ''log_stats_samples'']"

subsection \<open>SetConfig and GetConfig\<close>

text \<open>
  \<open>configs[option] = value\<close> converts the \<open>int\<close> to \<open>uint16_t\<close>; \<open>GetConfig\<close> converts
  the stored \<open>uint16_t\<close> back to \<open>int\<close>. Neither function checks its index: an index
  outside the array (the enumerator \<open>CONFIG_MAX\<close>, the array's size) has no defined
  behaviour in C++, which the model returns as \<open>None\<close>.
\<close>

definition SetConfig :: "ConfigOption \<Rightarrow> c_int \<Rightarrow> globals \<Rightarrow> globals option" where
  "SetConfig option v g =
     (if option_index option < length (configs g)
      then Some (g\<lparr>configs := (configs g)[option_index option := ucast v]\<rparr>)
      else None)"

definition GetConfig :: "ConfigOption \<Rightarrow> globals \<Rightarrow> c_int option" where
  "GetConfig option g =
     (if option_index option < length (configs g)
      then Some (ucast (configs g ! option_index option))
      else None)"

subsection \<open>LoadConfigFile\<close>

text \<open>
  \<open>LoadConfigFile\<close> calls \<open>std::filesystem::exists(filePath)\<close> and
  \<open>std::filesystem::is_symlink(filePath)\<close> in their throwing overloads and catches
  nothing: when the operating system fails to answer the status query behind one
  of them, the call throws \<open>std::filesystem::filesystem_error\<close> with the error code.
  That no file is found (\<open>ENOENT\<close>, \<open>ENOTDIR\<close>) is an answer and not an error; the
  errors are the other codes, of which the model names four.
\<close>

datatype errc =
  permission_denied | too_many_symbolic_link_levels | filename_too_long | io_error

datatype exception = filesystem_error errc

text \<open>
  What the file system holds for a path: whether the path names an existing file
  (following symbolic links), whether the path itself is a symbolic link, the error
  the operating system reports to the query \<open>status\<close> (which follows links) and to
  the query \<open>symlink_status\<close> (which does not), if any, and the content a reader
  would find there.
\<close>

record 'c file_status =
  fs_exists :: bool
  fs_is_symlink :: bool
  fs_status_error :: "errc option"
  fs_symlink_status_error :: "errc option"
  fs_content :: 'c

type_synonym 'c filesystem = "string \<Rightarrow> 'c file_status"

text \<open>
  \<open>std::filesystem::exists(p)\<close>, the throwing overload: \<open>status(p)\<close> throws on an
  error of the query, otherwise the answer says whether the file exists.
\<close>

definition filesystem_exists :: "'c file_status \<Rightarrow> exception + bool" where
  "filesystem_exists st =
     (case fs_status_error st of
        Some e \<Rightarrow> Inl (filesystem_error e)
      | None \<Rightarrow> Inr (fs_exists st))"

text \<open>
  \<open>std::filesystem::is_symlink(p)\<close>, the throwing overload: \<open>symlink_status(p)\<close> throws
  on an error of the query, otherwise the answer says whether the path is a link.
\<close>

definition filesystem_is_symlink :: "'c file_status \<Rightarrow> exception + bool" where
  "filesystem_is_symlink st =
     (case fs_symlink_status_error st of
        Some e \<Rightarrow> Inl (filesystem_error e)
      | None \<Rightarrow> Inr (fs_is_symlink st))"

text \<open>
  The class \<open>ConfigReader\<close> (config_reader.h, config_reader.cpp) is not part of the
  sources, so the four member functions \<open>LoadConfigFile\<close> calls are parameters of
  the model: \<open>'r\<close> is the reader's state after \<open>ParseFile\<close>. \<open>GetValue\<close> receives the
  tag, the current content of the variable \<open>value\<close> it is given by reference, and the
  two bounds in the order of the call (maximum, then minimum); it returns the content
  of \<open>value\<close> after the call. \<open>GetValueString\<close> is the overload for a string variable.
  The functions' boolean results are ignored by \<open>LoadConfigFile\<close> and left out.
\<close>

record ('c, 'r) ConfigReader =
  ParseFile :: "'c filesystem \<Rightarrow> string \<Rightarrow> 'r"
  GetValue :: "'r \<Rightarrow> string \<Rightarrow> c_int \<Rightarrow> c_int \<Rightarrow> c_int \<Rightarrow> c_int"
  GetValueString :: "'r \<Rightarrow> string \<Rightarrow> string \<Rightarrow> string"
  DumpValues :: "'r \<Rightarrow> string"

text \<open>
  One pair of statements of \<open>LoadConfigFile\<close>:
  \<open>configReader.GetValue(config_names[opt], value, max, min); configs[opt] = value;\<close>
  acting on the local variable \<open>value\<close> and the array.
\<close>

definition load_option ::
  "('c, 'r) ConfigReader \<Rightarrow> 'r \<Rightarrow> ConfigOption \<Rightarrow> c_int \<Rightarrow> c_int \<Rightarrow>
   c_int \<times> uint16_t list \<Rightarrow> c_int \<times> uint16_t list" where
  "load_option cr configReader opt mx mn s =
     (let value = GetValue cr configReader (config_names ! option_index opt) (fst s) mx mn
      in (value, (snd s)[option_index opt := ucast value]))"

text \<open>
  \<open>LoadConfigFile(file_content, filePath)\<close>: how the call ends (\<open>Inl\<close> the exception it
  throws, \<open>Inr\<close> the value it returns), and \<open>file_content\<close> and the globals as the call
  leaves them. The two queries are made in the order of the source, both before the
  test; an exception of either leaves the function before anything is written.
\<close>

definition LoadConfigFile ::
  "('c, 'r) ConfigReader \<Rightarrow> 'c filesystem \<Rightarrow> string \<Rightarrow> string \<Rightarrow> globals \<Rightarrow>
   (exception + bool) \<times> string \<times> globals" where
  "LoadConfigFile cr fs file_content filePath g =
     (case filesystem_exists (fs filePath) of
        Inl e \<Rightarrow> (Inl e, file_content, g)
      | Inr exists \<Rightarrow>
     (case filesystem_is_symlink (fs filePath) of
        Inl e \<Rightarrow> (Inl e, file_content, g)
      | Inr symlink \<Rightarrow>
         if \<not> exists \<or> symlink then (Inr False, file_content, g)
         else
           let configReader = ParseFile cr fs filePath;
               s = (0, configs g);
               s = load_option cr configReader USE_QAT_COMPRESS 1 0 s;
               s = load_option cr configReader USE_QAT_UNCOMPRESS 1 0 s;
               s = load_option cr configReader USE_IAA_COMPRESS 1 0 s;
               s = load_option cr configReader USE_IAA_UNCOMPRESS 1 0 s;
               s = load_option cr configReader USE_ZLIB_COMPRESS 1 0 s;
               s = load_option cr configReader USE_ZLIB_UNCOMPRESS 1 0 s;
               s = load_option cr configReader IAA_COMPRESS_PERCENTAGE 100 0 s;
               s = load_option cr configReader IAA_UNCOMPRESS_PERCENTAGE 100 0 s;
               s = load_option cr configReader IAA_PREPEND_EMPTY_BLOCK 1 0 s;
               s = load_option cr configReader QAT_PERIODICAL_POLLING 1 0 s;
               s = load_option cr configReader QAT_COMPRESSION_LEVEL 9 1 s;
               s = load_option cr configReader LOG_LEVEL 2 0 s;
               s = load_option cr configReader LOG_STATS_SAMPLES 1000 0 s;
               lf = GetValueString cr configReader ''log_file'' (log_file g)
           in (Inr True, file_content @ DumpValues cr configReader,
               g\<lparr>configs := snd s, log_file := lf\<rparr>)))"

subsection \<open>A reader to evaluate LoadConfigFile with\<close>

text \<open>
  Modelled from the spec: the content of a configuration file, as the missing
  \<open>ConfigReader\<close> (config_reader.cpp) would hold it after parsing. The spec calls the
  configuration surface "a file-backed key-value store with named options", whose
  values are integers and one "log file path string": a parsed file is the list of
  its integer entries and the list of its string entries.
\<close>

record kv_file =
  int_entries :: "(string \<times> int) list"
  str_entries :: "(string \<times> string) list"

text \<open>
  Modelled from the spec: the missing range check of \<open>ConfigReader::GetValue\<close>. The
  spec gives the options ranges ("percentage integers 0-100"); a value is brought
  into the range between the minimum and the maximum.
\<close>

definition clamp_int :: "int \<Rightarrow> int \<Rightarrow> int \<Rightarrow> int" where
  "clamp_int mn mx x = max mn (min mx x)"

text \<open>
  Modelled from the spec: the missing \<open>ConfigReader::GetValue\<close> for an integer
  option. An integer found under the tag is stored into \<open>value\<close>, brought into the
  range; a tag that is not in the file leaves \<open>value\<close> as it was.
\<close>

definition kv_GetValue :: "kv_file \<Rightarrow> string \<Rightarrow> c_int \<Rightarrow> c_int \<Rightarrow> c_int \<Rightarrow> c_int" where
  "kv_GetValue r tag value mx mn =
     (case map_of (int_entries r) tag of
        None \<Rightarrow> value
      | Some x \<Rightarrow> word_of_int (clamp_int (sint mn) (sint mx) x))"

text \<open>
  Modelled from the spec: the missing \<open>ConfigReader::GetValue\<close> for a string option
  (the log file path).
\<close>

definition kv_GetValueString :: "kv_file \<Rightarrow> string \<Rightarrow> string \<Rightarrow> string" where
  "kv_GetValueString r tag value =
     (case map_of (str_entries r) tag of None \<Rightarrow> value | Some x \<Rightarrow> x)"

text \<open>
  Modelled from the spec: the missing \<open>ConfigReader\<close> as a whole. \<open>ParseFile\<close> takes
  the content the file system holds for the path; \<open>DumpValues\<close>, of which the spec
  says nothing, lists the tags of the integer entries.
\<close>

definition kv_reader :: "(kv_file, kv_file) ConfigReader" where
  "kv_reader =
     \<lparr>ParseFile = (\<lambda>fs path. fs_content (fs path)),
      GetValue = kv_GetValue,
      GetValueString = kv_GetValueString,
      DumpValues = (\<lambda>r. concat (map (\<lambda>(k, v). k) (int_entries r)))\<rparr>"

section \<open>logging.h\<close>

datatype LogLevel = LOG_NONE | LOG_INFO | LOG_ERROR

text \<open>\<open>static_cast<uint32_t>(level)\<close>: \<open>LOG_NONE = 0, LOG_INFO = 1, LOG_ERROR = 2\<close>.\<close>

fun LogLevel_value :: "LogLevel \<Rightarrow> uint32_t" where
  "LogLevel_value LOG_NONE = 0"
| "LogLevel_value LOG_INFO = 1"
| "LogLevel_value LOG_ERROR = 2"

text \<open>
  \<open>GetLogStream\<close> returns a reference to one of two streams: the log file when the
  pointer is set and the file is open, \<open>std::cout\<close> otherwise.
\<close>

datatype ostream_ref = LogFileStream | StdCout

definition GetLogStream :: "globals \<Rightarrow> ostream_ref" where
  "GetLogStream g =
     (case log_file_stream g of
        None \<Rightarrow> StdCout
      | Some f \<Rightarrow> if is_open f then LogFileStream else StdCout)"

text \<open>\<open>stream << text\<close>: the characters are appended to the stream referred to.\<close>

definition put :: "ostream_ref \<Rightarrow> string \<Rightarrow> globals \<Rightarrow> globals" where
  "put stream txt g =
     (case stream of
        StdCout \<Rightarrow> g\<lparr>std_cout := std_cout g @ txt\<rparr>
      | LogFileStream \<Rightarrow>
          g\<lparr>log_file_stream :=
               map_option (\<lambda>f. f\<lparr>written := written f @ txt\<rparr>) (log_file_stream g)\<rparr>)"

text \<open>The text a stream holds.\<close>

definition stream_text :: "ostream_ref \<Rightarrow> globals \<Rightarrow> string" where
  "stream_text stream g =
     (case stream of
        StdCout \<Rightarrow> std_cout g
      | LogFileStream \<Rightarrow> (case log_file_stream g of None \<Rightarrow> [] | Some f \<Rightarrow> written f))"

text \<open>
  The arguments of the variadic templates are the values the callers of this
  repository stream: character strings and \<open>int\<close>s. An \<open>int\<close> is written in decimal.
\<close>

datatype log_arg = Text string | Number int

fun decimal :: "nat \<Rightarrow> string" where
  "decimal n =
     (if n < 10 then [''0123456789'' ! n]
      else decimal (n div 10) @ [''0123456789'' ! (n mod 10)])"

declare decimal.simps [simp del]

fun render :: "log_arg \<Rightarrow> string" where
  "render (Text t) = t"
| "render (Number i) = (if i < 0 then CHR ''-'' # decimal (nat (- i)) else decimal (nat i))"

text \<open>\<open>LogImpl\<close>: the arguments in order, then \<open>std::endl\<close> (a newline; the flush is not modelled).\<close>

fun LogImpl :: "ostream_ref \<Rightarrow> log_arg list \<Rightarrow> globals \<Rightarrow> globals" where
  "LogImpl stream [] g = put stream [CHR 0x0A] g"
| "LogImpl stream (first # rest) g = LogImpl stream rest (put stream (render first) g)"

text \<open>
  \<open>Log\<close>. The first parameter says whether the build defines \<open>DEBUG_LOG\<close>: without
  it the function has an empty body. In \<open>static_cast<uint32_t>(level) < configs[LOG_LEVEL]\<close>
  the \<open>uint16_t\<close> is converted to the 32-bit unsigned type and the comparison is
  unsigned.
\<close>

definition Log :: "bool \<Rightarrow> LogLevel \<Rightarrow> log_arg list \<Rightarrow> globals \<Rightarrow> globals" where
  "Log DEBUG_LOG level args g =
     (if \<not> DEBUG_LOG then g
      else if LogLevel_value level < ucast (configs g ! option_index LOG_LEVEL) then g
      else
        let stream = GetLogStream g
        in case level of
             LOG_ERROR \<Rightarrow> LogImpl stream args (put stream ''Error: '' g)
           | LOG_INFO \<Rightarrow> LogImpl stream args (put stream ''Info: '' g)
           | LOG_NONE \<Rightarrow> g)"

text \<open>
  \<open>PrintDeflateBlockHeader\<close>. \<open>GetCompressedFormat\<close> and \<open>GetHeaderLength\<close> are declared
  in utils.h, which is not part of the sources: they are parameters, \<open>'f\<close> being the
  type \<open>CompressedFormat\<close>. The buffer \<open>data\<close> is the list of the bytes allocated
  behind the pointer; \<open>len\<close> is what the caller passes as its length. Reading
  \<open>data[header_length]\<close> behind the last allocated byte has no defined behaviour: the
  model returns \<open>None\<close>. Otherwise the result is the buffer after the call and the new
  globals. The two operands of \<open>&\<close> are promoted to \<open>int\<close> before the operation;
  the \<open>int\<close> that \<open>>>\<close> shifts is not negative, so the shift is \<open>drop_bit\<close>.
\<close>

definition PrintDeflateBlockHeader ::
  "bool \<Rightarrow> (c_int \<Rightarrow> 'f) \<Rightarrow> ('f \<Rightarrow> uint32_t) \<Rightarrow>
   LogLevel \<Rightarrow> uint8_t list \<Rightarrow> uint32_t \<Rightarrow> c_int \<Rightarrow> log_arg list \<Rightarrow> globals \<Rightarrow>
   (uint8_t list \<times> globals) option" where
  "PrintDeflateBlockHeader DEBUG_LOG GetCompressedFormat GetHeaderLength
       level data len window_bits args g =
     (if \<not> DEBUG_LOG then Some (data, g)
      else if LogLevel_value level < ucast (configs g ! option_index LOG_LEVEL)
      then Some (data, g)
      else
        let format = GetCompressedFormat window_bits;
            header_length = GetHeaderLength format
        in if len \<ge> header_length + 1
           then (if unat header_length < length data
                 then
                   let byte = (ucast (data ! unat header_length) :: c_int)
                   in Some (data,
                        Log DEBUG_LOG level
                          ([Text ''Deflate block header bfinal='',
                            Number (sint (byte AND 1)),
                            Text '', btype='',
                            Number (sint (drop_bit 1 (byte AND 6))),
                            Text [CHR 0x0A]] @ args) g)
                 else None)
           else Some (data, g))"

subsection \<open>Header lengths to evaluate PrintDeflateBlockHeader with\<close>

text \<open>
  Modelled from the spec: the type \<open>CompressedFormat\<close> of the missing utils.h. The
  spec says only that the header offset "depends on whether a zlib/gzip wrapper is
  present, determined from the configured window-bits/format the stream was opened
  with": a stream is raw deflate, zlib-wrapped or gzip-wrapped, or its window bits
  are invalid.
\<close>

datatype CompressedFormat = DEFLATE_RAW | ZLIB_WRAPPED | GZIP_WRAPPED | INVALID_FORMAT

text \<open>
  Modelled from the spec: the missing \<open>GetCompressedFormat\<close> of utils.cpp, with
  zlib's convention for window bits (-15..-8 raw deflate, 8..15 zlib wrapper, 24..31
  gzip wrapper). It is used to evaluate \<open>PrintDeflateBlockHeader\<close> on concrete
  buffers only.
\<close>

definition utils_GetCompressedFormat :: "c_int \<Rightarrow> CompressedFormat" where
  "utils_GetCompressedFormat window_bits =
     (if - 15 \<le> sint window_bits \<and> sint window_bits \<le> - 8 then DEFLATE_RAW
      else if 8 \<le> sint window_bits \<and> sint window_bits \<le> 15 then ZLIB_WRAPPED
      else if 24 \<le> sint window_bits \<and> sint window_bits \<le> 31 then GZIP_WRAPPED
      else INVALID_FORMAT)"

text \<open>
  Modelled from the spec: the missing \<open>GetHeaderLength\<close> of utils.cpp, the length of
  the fixed part of each wrapper's header (none for raw deflate, 2 bytes for zlib, 10
  bytes for gzip). It is used to evaluate \<open>PrintDeflateBlockHeader\<close> on concrete
  buffers only.
\<close>

fun utils_GetHeaderLength :: "CompressedFormat \<Rightarrow> uint32_t" where
  "utils_GetHeaderLength DEFLATE_RAW = 0"
| "utils_GetHeaderLength ZLIB_WRAPPED = 2"
| "utils_GetHeaderLength GZIP_WRAPPED = 10"
| "utils_GetHeaderLength INVALID_FORMAT = 0"

section \<open>zlib_accel.h: execution paths\<close>

datatype ExecutionPath = UNDEFINED | ZLIB | QAT | IAA

section \<open>The dispatcher\<close>

text \<open>
  The dispatcher itself (zlib_accel.cpp) and the backends (iaa.cpp, qat.cpp) are
  missing from the sources: only the header above is there. Everything in this
  section is modelled from the spec, sections 2 to 4 and 6, and follows its words.
\<close>

text \<open>
  Modelled from the spec: the \<open>direction\<close> of a stream, "compress|decompress"
  (section 3); the dispatcher's code is missing.
\<close>

datatype Direction = Compress | Decompress

text \<open>
  Modelled from the spec: the Configuration Snapshot (section 3), "enable flags for
  each (backend, direction) pair, percentage weights for IAA-vs-software splitting
  per direction, a boolean controlling whether an empty priming block must be
  prepended for IAA streams, and a polling-mode flag for QAT".
\<close>

record ConfigSnapshot =
  enabled :: "ExecutionPath \<Rightarrow> Direction \<Rightarrow> bool"
  iaa_percentage :: "Direction \<Rightarrow> nat"
  prepend_empty_block :: bool
  qat_polling :: bool

text \<open>
  Modelled from the spec: the option of the code's Config Store that holds the
  enable flag of a (backend, direction) pair; the code that reads the flags is
  missing.
\<close>

fun enable_option :: "ExecutionPath \<Rightarrow> Direction \<Rightarrow> ConfigOption option" where
  "enable_option QAT Compress = Some USE_QAT_COMPRESS"
| "enable_option QAT Decompress = Some USE_QAT_UNCOMPRESS"
| "enable_option IAA Compress = Some USE_IAA_COMPRESS"
| "enable_option IAA Decompress = Some USE_IAA_UNCOMPRESS"
| "enable_option ZLIB Compress = Some USE_ZLIB_COMPRESS"
| "enable_option ZLIB Decompress = Some USE_ZLIB_UNCOMPRESS"
| "enable_option UNDEFINED d = None"

text \<open>
  Modelled from the spec: the option that holds the IAA percentage of a direction;
  the code that reads it is missing.
\<close>

fun percentage_option :: "Direction \<Rightarrow> ConfigOption" where
  "percentage_option Compress = IAA_COMPRESS_PERCENTAGE"
| "percentage_option Decompress = IAA_UNCOMPRESS_PERCENTAGE"

text \<open>
  Modelled from the spec: the snapshot as "an immutable read of the Config Store",
  here of the array \<open>configs\<close> of the code; the code that takes it is missing. A flag
  is set when its slot is not 0.
\<close>

definition snapshot :: "globals \<Rightarrow> ConfigSnapshot" where
  "snapshot g =
     \<lparr>enabled = (\<lambda>p d. case enable_option p d of
                           None \<Rightarrow> False
                         | Some opt \<Rightarrow> configs g ! option_index opt \<noteq> 0),
      iaa_percentage = (\<lambda>d. unat (configs g ! option_index (percentage_option d))),
      prepend_empty_block = (configs g ! option_index IAA_PREPEND_EMPTY_BLOCK \<noteq> 0),
      qat_polling = (configs g ! option_index QAT_PERIODICAL_POLLING \<noteq> 0)\<rparr>"

text \<open>
  Modelled from the spec: the Path Selector (section 4.1),
  \<open>select(direction, config_snapshot, random_draw \<in> [0,1)) -> Path\<close>, rules 1 to 4 in
  their order. The draw is a real number; "draws below the percentage threshold
  select IAA, the remainder select Zlib" compares it with the percentage over 100.
\<close>

definition select :: "Direction \<Rightarrow> ConfigSnapshot \<Rightarrow> real \<Rightarrow> ExecutionPath" where
  "select direction cfg random_draw =
     (if enabled cfg QAT direction then QAT
      else if enabled cfg IAA direction
        then (if random_draw < real (iaa_percentage cfg direction) / 100 then IAA else ZLIB)
      else if enabled cfg ZLIB direction then ZLIB
      else UNDEFINED)"

text \<open>
  Modelled from the spec: the status of a backend step (section 2), "one of {OK,
  STREAM_END, NEED_MORE_OUTPUT, ERROR}"; the backends' code is missing.
\<close>

datatype BackendStatus = OK | STREAM_END | NEED_MORE_OUTPUT | ERROR

text \<open>
  Modelled from the spec: what a backend step returns (section 2),
  "\<open>{consumed, produced, status}\<close>": the number of input bytes consumed, the bytes
  written to the output buffer, and the status; the backends' code is missing.
\<close>

record StepResult =
  consumed :: nat
  produced :: "uint8_t list"
  status :: BackendStatus

text \<open>
  Modelled from the spec: a Backend Adapter (section 2), "each exposes a uniform
  capability \<open>init(direction, params) -> handle\<close>,
  \<open>step(handle, input, output) -> {consumed, produced, status}\<close>, \<open>end(handle)\<close>". The
  adapters are external and their code is missing: a backend is a pair of functions
  over a type \<open>'h\<close> of handles, \<open>step\<close> taking the input bytes and the room left in
  the output buffer and returning the handle after the step with its result. \<open>end\<close>
  returns nothing and is not a field. There is one adapter per path.
\<close>

record 'h Backend =
  backend_init :: "Direction \<Rightarrow> ConfigSnapshot \<Rightarrow> 'h"
  backend_step :: "'h \<Rightarrow> uint8_t list \<Rightarrow> nat \<Rightarrow> 'h \<times> StepResult"

type_synonym 'h Backends = "ExecutionPath \<Rightarrow> 'h Backend"

text \<open>
  Modelled from the spec: a call the dispatcher makes to an adapter, \<open>init\<close>, \<open>step\<close>
  (with its input and the room for output) or \<open>end\<close>; the dispatcher's code is
  missing. The calls are recorded in the dispatcher's state, so that releasing a
  handle and calling no backend at all can be stated.
\<close>

datatype BackendCall =
    Init ExecutionPath
  | Step ExecutionPath "uint8_t list" nat
  | End ExecutionPath

text \<open>
  Modelled from the spec: the Execution Path Record (section 3), with the fields it
  lists; the dispatcher's code is missing.
\<close>

record 'h PathRecord =
  direction :: Direction
  chosen_path :: ExecutionPath
  backend_handle :: 'h
  fallback_occurred :: bool
  bytes_in :: nat
  bytes_out :: nat
  first_block_seen :: bool

text \<open>
  Modelled from the spec: the state of the missing dispatcher, the Stream Registry
  (section 4.2), "process-wide mapping from stream identity to its execution-path
  record", with the calls made to the adapters so far, each with the identity of its
  stream.
\<close>

record 'h Dispatcher =
  registry :: "nat \<rightharpoonup> 'h PathRecord"
  backend_calls :: "(nat \<times> BackendCall) list"

text \<open>
  Modelled from the spec: the missing dispatcher before any stream is processed.
\<close>

definition empty_dispatcher :: "'h Dispatcher" where
  "empty_dispatcher = \<lparr>registry = Map.empty, backend_calls = []\<rparr>"

text \<open>
  Modelled from the spec: the status the missing dispatcher returns to the caller
  (section 6), "a status code compatible with the wrapped library's {OK, STREAM_END,
  BUF_ERROR, ERRNO-style error}", or the configuration-error status of section 4.3
  step 2.
\<close>

datatype CallStatus =
  CALL_OK | CALL_STREAM_END | CALL_BUF_ERROR | CALL_ERROR | CALL_CONFIG_ERROR

text \<open>
  Modelled from the spec: what a call of the missing dispatcher gives back, the
  status with the number of input bytes consumed and the bytes written to the
  caller's output buffer.
\<close>

record CallResult =
  call_status :: CallStatus
  call_consumed :: nat
  call_produced :: "uint8_t list"

text \<open>
  Modelled from the spec: step 5 of section 4.3 in the missing dispatcher, "map
  backend status to the zlib-equivalent contract"; an \<open>ERROR\<close> that does not lead to
  the fallback is the error status.
\<close>

fun map_status :: "BackendStatus \<Rightarrow> CallStatus" where
  "map_status OK = CALL_OK"
| "map_status STREAM_END = CALL_STREAM_END"
| "map_status NEED_MORE_OUTPUT = CALL_BUF_ERROR"
| "map_status ERROR = CALL_ERROR"

text \<open>
  Modelled from the spec: what step 2 of section 4.3 returns in the missing
  dispatcher, "a configuration-error status immediately - no bytes consumed".
\<close>

definition config_error :: CallResult where
  "config_error = \<lparr>call_status = CALL_CONFIG_ERROR, call_consumed = 0, call_produced = []\<rparr>"

text \<open>
  Modelled from the spec: the introspection call of section 6,
  "\<open>get_execution_path(stream_identity) -> Path\<close> ... returning \<open>Undefined\<close> if the
  stream is unknown or not yet bound".
\<close>

definition get_execution_path :: "nat \<Rightarrow> 'h Dispatcher \<Rightarrow> ExecutionPath" where
  "get_execution_path identity d =
     (case registry d identity of None \<Rightarrow> UNDEFINED | Some r \<Rightarrow> chosen_path r)"

text \<open>
  Modelled from the spec: the record a first call creates (section 4.3 step 1: "if
  newly created, run Path Selection and backend \<open>init\<close>").
\<close>

definition create_record ::
  "'h Backends \<Rightarrow> ConfigSnapshot \<Rightarrow> Direction \<Rightarrow> ExecutionPath \<Rightarrow> 'h PathRecord" where
  "create_record bk cfg dir p =
     \<lparr>direction = dir, chosen_path = p, backend_handle = backend_init (bk p) dir cfg,
      fallback_occurred = False, bytes_in = 0, bytes_out = 0, first_block_seen = False\<rparr>"

text \<open>
  Modelled from the spec: step 7 of section 4.3, "update \<open>bytes_in\<close>/\<open>bytes_out\<close>,
  invoke Diagnostics", of which the record keeps \<open>first_block_seen\<close> (section 4.4;
  what Diagnostics logs is \<open>PrintDeflateBlockHeader\<close> above).
\<close>

definition account :: "'h PathRecord \<Rightarrow> nat \<Rightarrow> uint8_t list \<Rightarrow> 'h PathRecord" where
  "account r n out =
     r\<lparr>bytes_in := bytes_in r + n, bytes_out := bytes_out r + length out,
       first_block_seen := (first_block_seen r \<or> out \<noteq> [])\<rparr>"

text \<open>
  Modelled from the spec: steps 4 to 7 of section 4.3 for a bound record. Step 4
  invokes the bound backend with the caller's buffers; step 5 maps its status; on
  \<open>ERROR\<close> from a hardware backend "that has not already triggered fallback for this
  record", step 6 releases the hardware handle, sets \<open>fallback_occurred\<close>, sets
  \<open>chosen_path = Zlib\<close>, initialises a software handle and replays the step "against
  the original input starting from the byte offset already consumed by the failed
  hardware attempt", the bytes "already produced into the output buffer before the
  error" being retained. Any other \<open>ERROR\<close> is terminal and surfaced to the caller.
\<close>

definition run_step ::
  "'h Backends \<Rightarrow> ConfigSnapshot \<Rightarrow> nat \<Rightarrow> 'h PathRecord \<Rightarrow> uint8_t list \<Rightarrow> nat \<Rightarrow>
   (nat \<times> BackendCall) list \<Rightarrow> CallResult \<times> 'h PathRecord \<times> (nat \<times> BackendCall) list" where
  "run_step bk cfg identity r input room calls =
     (let p = chosen_path r;
          (h1, res) = backend_step (bk p) (backend_handle r) input room;
          calls1 = calls @ [(identity, Step p input room)]
      in if status res \<noteq> ERROR
         then (\<lparr>call_status = map_status (status res), call_consumed = consumed res,
                call_produced = produced res\<rparr>,
               account (r\<lparr>backend_handle := h1\<rparr>) (consumed res) (produced res),
               calls1)
         else if (p = QAT \<or> p = IAA) \<and> \<not> fallback_occurred r
         then
           (let h2 = backend_init (bk ZLIB) (direction r) cfg;
                rest = drop (consumed res) input;
                room2 = room - length (produced res);
                (h3, res2) = backend_step (bk ZLIB) h2 rest room2;
                calls2 = calls1 @ [(identity, End p), (identity, Init ZLIB),
                                   (identity, Step ZLIB rest room2)];
                r2 = r\<lparr>chosen_path := ZLIB, backend_handle := h3, fallback_occurred := True\<rparr>
            in (\<lparr>call_status = map_status (status res2),
                 call_consumed = consumed res + consumed res2,
                 call_produced = produced res @ produced res2\<rparr>,
                account r2 (consumed res + consumed res2) (produced res @ produced res2),
                calls2))
         else (\<lparr>call_status = CALL_ERROR, call_consumed = consumed res,
                call_produced = produced res\<rparr>,
               account (r\<lparr>backend_handle := h1\<rparr>) (consumed res) (produced res),
               calls1))"

text \<open>
  Modelled from the spec: the per-call contract of section 4.3,
  \<open>process(identity, direction, input_buffer, output_buffer) -> Status\<close>. Step 1
  resolves or creates the record; the draw is used only when the record is new.
  Step 2 returns the configuration error with no bytes consumed, and (section 7)
  with no partial state created: the dispatcher is returned as it was. Step 3, for a
  new IAA stream when priming is configured, submits a zero-length step before the
  first real one; of its result the record keeps the handle.
\<close>

definition process ::
  "'h Backends \<Rightarrow> ConfigSnapshot \<Rightarrow> real \<Rightarrow> nat \<Rightarrow> Direction \<Rightarrow> uint8_t list \<Rightarrow> nat \<Rightarrow>
   'h Dispatcher \<Rightarrow> CallResult \<times> 'h Dispatcher" where
  "process bk cfg random_draw identity dir input room d =
     (case registry d identity of
        None \<Rightarrow>
          (let p = select dir cfg random_draw
           in if p = UNDEFINED then (config_error, d)
              else
                let r0 = create_record bk cfg dir p;
                    calls0 = backend_calls d @ [(identity, Init p)];
                    primed = (p = IAA \<and> prepend_empty_block cfg);
                    r1 = (if primed
                          then r0\<lparr>backend_handle :=
                                    fst (backend_step (bk IAA) (backend_handle r0) [] 0)\<rparr>
                          else r0);
                    calls1 = (if primed then calls0 @ [(identity, Step IAA [] 0)] else calls0);
                    (res, r2, calls2) = run_step bk cfg identity r1 input room calls1
                in (res, \<lparr>registry = (registry d)(identity \<mapsto> r2), backend_calls = calls2\<rparr>))
      | Some r \<Rightarrow>
          if chosen_path r = UNDEFINED then (config_error, d)
          else
            let (res, r2, calls2) = run_step bk cfg identity r input room (backend_calls d)
            in (res, \<lparr>registry = (registry d)(identity \<mapsto> r2), backend_calls = calls2\<rparr>))"

text \<open>
  Modelled from the spec: step 8, "on stream end, call backend \<open>end\<close>, then \<open>remove\<close>
  the record"; a second call for the same identity finds no record and does nothing.
\<close>

definition stream_end :: "nat \<Rightarrow> 'h Dispatcher \<Rightarrow> 'h Dispatcher" where
  "stream_end identity d =
     (case registry d identity of
        None \<Rightarrow> d
      | Some r \<Rightarrow>
          \<lparr>registry = (registry d)(identity := None),
           backend_calls = backend_calls d @ [(identity, End (chosen_path r))]\<rparr>)"

text \<open>
  Modelled from the spec: the arguments of one processing call of the missing
  dispatcher, with the snapshot and the draw of its moment.
\<close>

record Call =
  call_cfg :: ConfigSnapshot
  call_draw :: real
  call_identity :: nat
  call_direction :: Direction
  call_input :: "uint8_t list"
  call_room :: nat

text \<open>
  Modelled from the spec: \<open>process\<close> (the missing dispatcher's entry point) applied
  to the arguments of a call.
\<close>

definition process_call :: "'h Backends \<Rightarrow> Call \<Rightarrow> 'h Dispatcher \<Rightarrow> CallResult \<times> 'h Dispatcher" where
  "process_call bk c d =
     process bk (call_cfg c) (call_draw c) (call_identity c) (call_direction c)
       (call_input c) (call_room c) d"

text \<open>
  Modelled from the spec: a sequence of processing calls on the missing dispatcher,
  observed through \<open>get_execution_path\<close>: the path a stream is bound to after each
  call of the sequence.
\<close>

fun path_history :: "'h Backends \<Rightarrow> nat \<Rightarrow> Call list \<Rightarrow> 'h Dispatcher \<Rightarrow> ExecutionPath list" where
  "path_history bk identity [] d = []"
| "path_history bk identity (c # cs) d =
     get_execution_path identity (snd (process_call bk c d))
       # path_history bk identity cs (snd (process_call bk c d))"

section \<open>Concrete inputs\<close>

text \<open>A file system without any file, which answers every status query.\<close>

definition no_files :: "kv_file filesystem" where
  "no_files =
     (\<lambda>p. \<lparr>fs_exists = False, fs_is_symlink = False,
            fs_status_error = None, fs_symlink_status_error = None,
            fs_content = \<lparr>int_entries = [], str_entries = []\<rparr>\<rparr>)"

text \<open>
  A file system without any file, in which the directory of every path may not be
  searched: each status query fails with \<open>EACCES\<close>.
\<close>

definition unsearchable :: "kv_file filesystem" where
  "unsearchable =
     (\<lambda>p. \<lparr>fs_exists = False, fs_is_symlink = False,
            fs_status_error = Some permission_denied,
            fs_symlink_status_error = Some permission_denied,
            fs_content = \<lparr>int_entries = [], str_entries = []\<rparr>\<rparr>)"

text \<open>
  A configuration file that sets every option under the lower-case name of its
  enumerator, the name all other entries of \<open>config_names\<close> follow.
\<close>

definition documented_file :: kv_file where
  "documented_file =
     \<lparr>int_entries =
        [(''use_qat_compress'', 1), (''use_qat_uncompress'', 1),
         (''use_iaa_compress'', 1), (''use_iaa_uncompress'', 1),
         (''use_zlib_compress'', 1), (''use_zlib_uncompress'', 1),
         (''iaa_compress_percentage'', 30), (''iaa_uncompress_percentage'', 70),
         (''iaa_prepend_empty_block'', 0), (''qat_periodical_polling'', 0),
         (''qat_compression_level'', 5), (''log_level'', 2),
         (''log_stats_samples'', 1000)],
      str_entries = []\<rparr>"

definition one_file :: "kv_file filesystem" where
  "one_file =
     (\<lambda>p. \<lparr>fs_exists = (p = ''/etc/zlib-accel.conf''), fs_is_symlink = False,
            fs_status_error = None, fs_symlink_status_error = None,
            fs_content = documented_file\<rparr>)"

text \<open>
  The state of the logging tests: a log file is open and empty, and
  \<open>SetConfig(LOG_LEVEL, LOG_INFO)\<close> has been called.
\<close>

definition logging_test_globals :: globals where
  "logging_test_globals =
     \<lparr>configs = [1, 1, 0, 0, 1, 1, 50, 50, 0, 0, 1, 1, 1000], log_file = '''',
      log_file_stream = Some \<lparr>is_open = True, written = ''''\<rparr>, std_cout = ''''\<rparr>"

text \<open>
  Concrete inputs for the dispatcher. The handle of a test backend counts the steps
  made on it; a step copies the input to the output as far as there is room. The
  QAT backend fails at its second step, after one byte.
\<close>

definition test_backends :: "nat Backends" where
  "test_backends p =
     \<lparr>backend_init = (\<lambda>d cfg. 0),
      backend_step = (\<lambda>h input room.
         if p = QAT \<and> 1 \<le> h
         then (Suc h, \<lparr>consumed = 1, produced = take 1 input, status = ERROR\<rparr>)
         else (Suc h, \<lparr>consumed = min (length input) room, produced = take room input,
                        status = OK\<rparr>))\<rparr>"

definition iaa_only :: "nat \<Rightarrow> ConfigSnapshot" where
  "iaa_only pct =
     \<lparr>enabled = (\<lambda>p d. p = IAA \<or> p = ZLIB), iaa_percentage = (\<lambda>d. pct),
      prepend_empty_block = False, qat_polling = False\<rparr>"

definition nothing_enabled :: ConfigSnapshot where
  "nothing_enabled =
     \<lparr>enabled = (\<lambda>p d. False), iaa_percentage = (\<lambda>d. 50),
      prepend_empty_block = False, qat_polling = False\<rparr>"

definition test_call :: "uint8_t list \<Rightarrow> Call" where
  "test_call input =
     \<lparr>call_cfg = snapshot initial_globals, call_draw = 1 / 4, call_identity = 7,
      call_direction = Compress, call_input = input, call_room = 10\<rparr>"

definition qat_record :: "nat PathRecord" where
  "qat_record =
     \<lparr>direction = Compress, chosen_path = QAT, backend_handle = 1,
      fallback_occurred = False, bytes_in = 3, bytes_out = 3, first_block_seen = True\<rparr>"

definition after_first_call :: "nat Dispatcher" where
  "after_first_call =
     \<lparr>registry = [7 \<mapsto> qat_record],
      backend_calls = [(7, Init QAT), (7, Step QAT [1, 2, 3] 10)]\<rparr>"

section \<open>Properties of the configuration store\<close>

lemma option_index_less_13: "option \<noteq> CONFIG_MAX \<Longrightarrow> option_index option < 13"
  by (cases option) simp_all

lemma uint16_of_int: "uint (ucast (v :: c_int) :: uint16_t) = sint v mod 2 ^ 16"
proof -
  have "uint (ucast v :: uint16_t) = take_bit 16 (uint v)"
    by (simp add: unsigned_ucast_eq)
  also have "\<dots> = take_bit 16 (take_bit 32 (sint v))"
    by (simp add: uint_sint)
  also have "\<dots> = take_bit 16 (sint v)"
    by simp
  finally show ?thesis by (simp add: take_bit_eq_mod)
qed

lemma int_of_uint16: "sint (ucast (w :: uint16_t) :: c_int) = uint w"
proof -
  have "uint w < 2 ^ 16" using uint_bounded [of w] by simp
  then have b: "uint w < 2 ^ 31" by simp
  have "sint (ucast w :: c_int) = signed_take_bit 31 (uint w)"
    by (simp add: signed_ucast_eq)
  also have "\<dots> = uint w"
  proof (rule signed_take_bit_int_eq_self)
    have "- (2 ^ 31) \<le> (0::int)" by simp
    also have "(0::int) \<le> uint w" by simp
    finally show "- (2 ^ 31) \<le> uint w" .
    show "uint w < 2 ^ 31" by (rule b)
  qed
  finally show ?thesis .
qed

lemma initial_length: "length (configs initial_globals) = 13"
  by (simp add: initial_globals_def default_configs_def)

text \<open>
  C9. For an option \<open>o\<close> of the array (every enumerator but the size \<open>CONFIG_MAX\<close>)
  and every \<open>int\<close> \<open>v\<close>, \<open>SetConfig(o, v)\<close> followed by \<open>GetConfig(o)\<close> returns \<open>v\<close>
  reduced modulo \<open>2 ^ 16\<close>: \<open>SetConfig\<close> accepts every value and validates nothing.
\<close>

theorem SetConfig_GetConfig_truncates:
  assumes "length (configs g) = 13" and "option \<noteq> CONFIG_MAX"
  shows "map_option sint (Option.bind (SetConfig option v g) (GetConfig option))
           = Some (sint v mod 2 ^ 16)"
proof -
  have i: "option_index option < length (configs g)"
    using assms option_index_less_13 [of option] by simp
  then show ?thesis
    by (simp add: SetConfig_def GetConfig_def int_of_uint16 uint16_of_int)
qed

text \<open>At \<open>-1\<close> the value read back is 65535, at 65636 it is 100.\<close>

theorem SetConfig_GetConfig_truncates_witness:
  "length (configs initial_globals) = 13 \<and> LOG_LEVEL \<noteq> CONFIG_MAX
   \<and> map_option sint
        (Option.bind (SetConfig LOG_LEVEL (- 1) initial_globals) (GetConfig LOG_LEVEL))
      = Some 65535
   \<and> map_option sint
        (Option.bind (SetConfig LOG_LEVEL 65636 initial_globals) (GetConfig LOG_LEVEL))
      = Some 100"
  using SetConfig_GetConfig_truncates [of initial_globals LOG_LEVEL "- 1"]
        SetConfig_GetConfig_truncates [of initial_globals LOG_LEVEL 65636]
  by (simp add: initial_length)

text \<open>
  C2. When \<open>filePath\<close> names a file that does not exist, \<open>LoadConfigFile\<close> changes
  nothing: \<open>configs\<close>, \<open>log_file\<close> and \<open>file_content\<close> are what they were before the
  call, whatever the reader is. It returns \<open>false\<close> when the file system answers both
  status queries, and throws \<open>filesystem_error\<close> with the error of the first query
  that fails otherwise.
\<close>

theorem LoadConfigFile_missing_file:
  assumes "\<not> fs_exists (fs filePath)"
  shows "LoadConfigFile cr fs file_content filePath g =
           (case fs_status_error (fs filePath) of
              Some e \<Rightarrow> Inl (filesystem_error e)
            | None \<Rightarrow>
                (case fs_symlink_status_error (fs filePath) of
                   Some e \<Rightarrow> Inl (filesystem_error e)
                 | None \<Rightarrow> Inr False),
            file_content, g)"
  using assms
  by (simp add: LoadConfigFile_def filesystem_exists_def filesystem_is_symlink_def
        split: option.splits)

text \<open>
  From the initial state, the defaults are still there after the call, both where
  it returns \<open>false\<close> and where it throws.
\<close>

theorem LoadConfigFile_missing_file_witness:
  "\<not> fs_exists (no_files ''/etc/zlib-accel.conf'')
   \<and> LoadConfigFile kv_reader no_files '''' ''/etc/zlib-accel.conf'' initial_globals
       = (Inr False, '''', initial_globals)
   \<and> \<not> fs_exists (unsearchable ''/root/zlib-accel.conf'')
   \<and> LoadConfigFile kv_reader unsearchable '''' ''/root/zlib-accel.conf'' initial_globals
       = (Inl (filesystem_error permission_denied), '''', initial_globals)
   \<and> configs initial_globals = [1, 1, 0, 0, 1, 1, 50, 50, 0, 0, 1, 2, 1000]
   \<and> log_file initial_globals = ''''"
  using LoadConfigFile_missing_file
          [of no_files "''/etc/zlib-accel.conf''" kv_reader "''''" initial_globals]
        LoadConfigFile_missing_file
          [of unsearchable "''/root/zlib-accel.conf''" kv_reader "''''" initial_globals]
  by (simp add: no_files_def unsearchable_def initial_globals_def default_configs_def)

text \<open>
  The claim as it was stated, that the call returns \<open>false\<close> for every path naming no
  file, fails where the status query fails: no file is behind the path, and the call
  throws instead of returning.
\<close>

theorem LoadConfigFile_missing_file_counterexample:
  "\<not> fs_exists (unsearchable ''/root/zlib-accel.conf'')
   \<and> fst (LoadConfigFile kv_reader unsearchable '''' ''/root/zlib-accel.conf'' initial_globals)
       = Inl (filesystem_error permission_denied)
   \<and> fst (LoadConfigFile kv_reader unsearchable '''' ''/root/zlib-accel.conf'' initial_globals)
       \<noteq> Inr False"
  by (simp add: LoadConfigFile_def filesystem_exists_def unsearchable_def)

subsection \<open>The keys LoadConfigFile reads\<close>

lemma load_option_pair:
  "load_option cr r opt mx mn (v, c) =
     (GetValue cr r (config_names ! option_index opt) v mx mn,
      c[option_index opt := ucast (GetValue cr r (config_names ! option_index opt) v mx mn)])"
  by (simp add: load_option_def Let_def)

lemma config_names_nth:
  "config_names ! 5 = ''USE_ZLIB_UNCOMPRESS''"
  "config_names ! 6 = ''use_zlib_uncompress''"
  "config_names ! 7 = ''iaa_compress_percentage''"
  by (simp_all add: config_names_def)

text \<open>
  Whatever the reader is, the slot of \<open>IAA_UNCOMPRESS_PERCENTAGE\<close> receives what
  \<open>GetValue\<close> answers for the tag \<open>iaa_compress_percentage\<close>, and the slot of
  \<open>IAA_COMPRESS_PERCENTAGE\<close> what it answers for the tag \<open>use_zlib_uncompress\<close>, both
  with the bounds 100 and 0; no entry of the table is \<open>iaa_uncompress_percentage\<close>.
\<close>

lemma LoadConfigFile_uncompress_percentage_tag:
  assumes "fs_status_error (fs p) = None" and "fs_symlink_status_error (fs p) = None"
      and "fs_exists (fs p)" and "\<not> fs_is_symlink (fs p)" and "length (configs g) = 13"
  shows "\<exists>v. configs (snd (snd (LoadConfigFile cr fs fc p g)))
                ! option_index IAA_UNCOMPRESS_PERCENTAGE
           = ucast (GetValue cr (ParseFile cr fs p) ''iaa_compress_percentage'' v 100 0)"
  using assms
  apply (simp add: LoadConfigFile_def filesystem_exists_def filesystem_is_symlink_def
           load_option_pair Let_def config_names_nth)
  apply (rule exI)
  apply (rule refl)
  done

lemma LoadConfigFile_compress_percentage_tag:
  assumes "fs_status_error (fs p) = None" and "fs_symlink_status_error (fs p) = None"
      and "fs_exists (fs p)" and "\<not> fs_is_symlink (fs p)" and "length (configs g) = 13"
  shows "\<exists>v. configs (snd (snd (LoadConfigFile cr fs fc p g)))
                ! option_index IAA_COMPRESS_PERCENTAGE
           = ucast (GetValue cr (ParseFile cr fs p) ''use_zlib_uncompress'' v 100 0)"
  using assms
  apply (simp add: LoadConfigFile_def filesystem_exists_def filesystem_is_symlink_def
           load_option_pair Let_def config_names_nth)
  apply (rule exI)
  apply (rule refl)
  done

lemma uncompress_percentage_name_missing:
  "''iaa_uncompress_percentage'' \<notin> set config_names"
  by (simp add: config_names_def)

text \<open>
  C1. The code at a file that sets \<open>iaa_compress_percentage = 30\<close>,
  \<open>iaa_uncompress_percentage = 70\<close> and \<open>use_zlib_uncompress = 1\<close> among the other
  options: the compress percentage is loaded as 1 and the uncompress percentage as
  30, where the claim asks for 30 and 70.
\<close>

theorem LoadConfigFile_percentages_from_shifted_names:
  "LoadConfigFile kv_reader one_file '''' ''/etc/zlib-accel.conf'' initial_globals
     = (Inr True, DumpValues kv_reader documented_file,
        initial_globals\<lparr>configs := [1, 1, 1, 1, 1, 1, 1, 30, 0, 0, 5, 2, 1000]\<rparr>)"
  by code_simp


text \<open>
  The file of this input exists and is no symbolic link, and both status queries are
  answered, so the call takes the loading branch; the two percentage slots after it.
\<close>

theorem LoadConfigFile_percentages_from_shifted_names_witness:
  "filesystem_exists (one_file ''/etc/zlib-accel.conf'') = Inr True
   \<and> filesystem_is_symlink (one_file ''/etc/zlib-accel.conf'') = Inr False
   \<and> configs (snd (snd (LoadConfigFile kv_reader one_file '''' ''/etc/zlib-accel.conf''
          initial_globals))) ! option_index IAA_COMPRESS_PERCENTAGE = 1
   \<and> configs (snd (snd (LoadConfigFile kv_reader one_file '''' ''/etc/zlib-accel.conf''
          initial_globals))) ! option_index IAA_UNCOMPRESS_PERCENTAGE = 30"
  using LoadConfigFile_percentages_from_shifted_names
  by (simp add: one_file_def filesystem_exists_def filesystem_is_symlink_def)


section \<open>Properties of the logger\<close>

lemma put_Nil: "put s [] g = g"
  by (cases s; cases "log_file_stream g") (simp_all add: put_def)

lemma put_put: "put s a (put s b g) = put s (b @ a) g"
  by (cases s; cases "log_file_stream g") (simp_all add: put_def)

lemma LogImpl_put:
  "LogImpl s args g = put s (concat (map render args) @ [CHR 0x0A]) g"
  by (induction args arbitrary: g) (simp_all add: put_put)

lemma stream_text_put:
  "stream_text (GetLogStream g) (put (GetLogStream g) t g) = stream_text (GetLogStream g) g @ t"
  by (cases "log_file_stream g") (simp_all add: GetLogStream_def put_def stream_text_def)

lemma put_frame:
  "configs (put s t g) = configs g"
  "log_file (put s t g) = log_file g"
  "GetLogStream (put s t g) = GetLogStream g"
  by (cases s; cases "log_file_stream g"; simp add: put_def GetLogStream_def)+

lemma put_changes: "put (GetLogStream g) t g = g \<longleftrightarrow> t = []"
proof
  assume "put (GetLogStream g) t g = g"
  then have "stream_text (GetLogStream g) (put (GetLogStream g) t g)
               = stream_text (GetLogStream g) g"
    by simp
  then show "t = []" by (simp add: stream_text_put)
next
  assume "t = []"
  then show "put (GetLogStream g) t g = g" by (simp add: put_Nil)
qed

lemma level_filter:
  "(LogLevel_value level < ucast (c :: uint16_t)) \<longleftrightarrow> unat (LogLevel_value level) < unat c"
proof -
  have "unat c < 2 ^ 16" using unsigned_less [of c] by simp
  then have "unat c < 2 ^ 32" by simp
  then have "unat (ucast c :: uint32_t) = unat c"
    by (simp add: unsigned_ucast_eq take_bit_nat_eq_self_iff)
  then show ?thesis by (simp add: word_less_nat_alt)
qed

text \<open>What a build with \<open>DEBUG_LOG\<close> appends to the log stream in one call of \<open>Log\<close>.\<close>

lemma Log_debug_text:
  "Log True level args g =
     put (GetLogStream g)
       (if level \<noteq> LOG_NONE
           \<and> unat (configs g ! option_index LOG_LEVEL) \<le> unat (LogLevel_value level)
        then (case level of LOG_ERROR \<Rightarrow> ''Error: '' | LOG_INFO \<Rightarrow> ''Info: '' | LOG_NONE \<Rightarrow> [])
             @ concat (map render args) @ [CHR 0x0A]
        else []) g"
proof -
  have u: "Log True level args g =
       (if unat (LogLevel_value level) < unat (configs g ! option_index LOG_LEVEL) then g
        else case level of
               LOG_ERROR \<Rightarrow> LogImpl (GetLogStream g) args (put (GetLogStream g) ''Error: '' g)
             | LOG_INFO \<Rightarrow> LogImpl (GetLogStream g) args (put (GetLogStream g) ''Info: '' g)
             | LOG_NONE \<Rightarrow> g)"
    unfolding Log_def level_filter by (simp add: Let_def)
  show ?thesis
    unfolding u by (cases level) (simp_all add: LogImpl_put put_put put_Nil not_less)
qed

text \<open>
  C10. \<open>Log(LOG_NONE, ...)\<close> writes nothing, in every build. In a build with
  \<open>DEBUG_LOG\<close>, \<open>Log(level, ...)\<close> appends to the log stream the prefix of the level,
  the arguments and a newline when \<open>level\<close> is not \<open>LOG_NONE\<close> and its numeric value is
  at least \<open>configs[LOG_LEVEL]\<close>, and leaves the state as it is otherwise: it emits
  output if and only if that condition holds.
\<close>

theorem Log_emits_iff:
  "Log DEBUG_LOG LOG_NONE args g = g
   \<and> Log True level args g =
       put (GetLogStream g)
         (if level \<noteq> LOG_NONE
             \<and> unat (configs g ! option_index LOG_LEVEL) \<le> unat (LogLevel_value level)
          then (case level of LOG_ERROR \<Rightarrow> ''Error: '' | LOG_INFO \<Rightarrow> ''Info: '' | LOG_NONE \<Rightarrow> [])
               @ concat (map render args) @ [CHR 0x0A]
          else []) g
   \<and> (Log True level args g \<noteq> g
        \<longleftrightarrow> level \<noteq> LOG_NONE
            \<and> unat (configs g ! option_index LOG_LEVEL) \<le> unat (LogLevel_value level))"
proof -
  have a: "Log DEBUG_LOG LOG_NONE args g = g"
    by (simp add: Log_def)
  have c: "Log True level args g \<noteq> g
        \<longleftrightarrow> level \<noteq> LOG_NONE
            \<and> unat (configs g ! option_index LOG_LEVEL) \<le> unat (LogLevel_value level)"
    unfolding Log_debug_text by (cases level) (simp_all add: put_changes)
  from a Log_debug_text c show ?thesis by blast
qed

text \<open>
  The filtering test of the logging tests: with \<open>LOG_LEVEL = LOG_ERROR\<close> an
  \<open>INFO\<close> message is dropped and an \<open>ERROR\<close> message is written.
\<close>

theorem Log_emits_iff_witness:
  "Log True LOG_INFO [Text ''filtered'']
     (logging_test_globals\<lparr>configs := [1, 1, 0, 0, 1, 1, 50, 50, 0, 0, 1, 2, 1000]\<rparr>)
   = logging_test_globals\<lparr>configs := [1, 1, 0, 0, 1, 1, 50, 50, 0, 0, 1, 2, 1000]\<rparr>
   \<and> log_file_stream (Log True LOG_ERROR [Text ''visible'']
        (logging_test_globals\<lparr>configs := [1, 1, 0, 0, 1, 1, 50, 50, 0, 0, 1, 2, 1000]\<rparr>))
     = Some \<lparr>is_open = True, written = ''Error: visible'' @ [CHR 0x0A]\<rparr>"
  using Log_emits_iff
          [of True "[Text ''filtered'']"
              "logging_test_globals\<lparr>configs := [1, 1, 0, 0, 1, 1, 50, 50, 0, 0, 1, 2, 1000]\<rparr>"
              LOG_INFO]
        Log_emits_iff
          [of True "[Text ''visible'']"
              "logging_test_globals\<lparr>configs := [1, 1, 0, 0, 1, 1, 50, 50, 0, 0, 1, 2, 1000]\<rparr>"
              LOG_ERROR]
  by (simp add: logging_test_globals_def GetLogStream_def put_def)

subsection \<open>PrintDeflateBlockHeader\<close>

lemma promoted_byte: "uint (ucast (b :: uint8_t) :: c_int) = uint b"
  by (simp add: unsigned_ucast_eq take_bit_int_eq_self_iff order_less_trans [OF uint_bounded])

lemma small_sint:
  assumes "uint (x :: c_int) < 2 ^ 31"
  shows "sint x = uint x"
proof -
  have "sint x = signed_take_bit 31 (uint x)"
    by (simp add: sint_uint)
  also have "\<dots> = uint x"
  proof (rule signed_take_bit_int_eq_self)
    have "- (2 ^ 31) \<le> (0::int)" by simp
    also have "(0::int) \<le> uint x" by simp
    finally show "- (2 ^ 31) \<le> uint x" .
    show "uint x < 2 ^ 31" by (rule assms)
  qed
  finally show ?thesis .
qed

text \<open>The first logged number is bit 0 of the byte, the second its bits 1 and 2.\<close>

lemma bfinal_bit:
  "sint ((ucast (b :: uint8_t) :: c_int) AND 1) = uint b mod 2"
proof -
  let ?x = "ucast b :: c_int"
  have "uint (?x AND 1) = uint ?x AND uint (1 :: c_int)"
    by (rule uint_and)
  also have "\<dots> = uint b AND 1"
    by (simp add: promoted_byte)
  also have "\<dots> = uint b mod 2"
    by (simp add: and_one_eq mod_2_eq_odd)
  finally have u: "uint (?x AND 1) = uint b mod 2" .
  have "uint b mod 2 < 2" by simp
  then have "uint (?x AND 1) < 2 ^ 31" using u by simp
  then show ?thesis using u by (simp add: small_sint)
qed

lemma btype_bits:
  "sint (drop_bit 1 ((ucast (b :: uint8_t) :: c_int) AND 6)) = uint b div 2 mod 4"
proof -
  let ?x = "ucast b :: c_int"
  have "drop_bit 1 (?x AND 6) = take_bit 2 (drop_bit 1 ?x)"
    by (simp add: take_bit_eq_mask mask_numeral)
  then have "uint (drop_bit 1 (?x AND 6)) = take_bit 2 (drop_bit 1 (uint ?x))"
    by (simp add: unsigned_take_bit_eq unsigned_drop_bit_eq bintr_uint)
  then have u: "uint (drop_bit 1 (?x AND 6)) = uint b div 2 mod 4"
    by (simp add: promoted_byte take_bit_eq_mod drop_bit_eq_div)
  have "uint b div 2 mod 4 < 4" by simp
  then have "uint (drop_bit 1 (?x AND 6)) < 2 ^ 31" using u by simp
  then show ?thesis using u by (simp add: small_sint)
qed

lemma nat_bfinal: "nat (uint (b :: uint8_t) mod 2) = unat b mod 2"
proof -
  have "int (unat b mod 2) = uint b mod 2"
    by (simp only: zmod_int uint_nat of_nat_numeral)
  then show ?thesis by (metis nat_int)
qed

lemma nat_btype: "nat (uint (b :: uint8_t) div 2 mod 4) = unat b div 2 mod 4"
proof -
  have "int (unat b div 2 mod 4) = uint b div 2 mod 4"
    by (simp only: zmod_int zdiv_int uint_nat of_nat_numeral)
  then show ?thesis by (metis nat_int)
qed

lemma render_bfinal:
  "render (Number (sint ((ucast (b :: uint8_t) :: c_int) AND 1))) = decimal (unat b mod 2)"
proof -
  have "\<not> uint b mod 2 < 0" by simp
  then show ?thesis by (simp only: bfinal_bit render.simps nat_bfinal if_False)
qed

lemma render_btype:
  "render (Number (sint (drop_bit 1 ((ucast (b :: uint8_t) :: c_int) AND 6))))
     = decimal (unat b div 2 mod 4)"
proof -
  have "\<not> uint b div 2 mod 4 < 0" by simp
  then show ?thesis by (simp only: btype_bits render.simps nat_btype if_False)
qed

lemma header_args_text:
  "concat (map render
     ([Text a, Number (sint ((ucast (b :: uint8_t) :: c_int) AND 1)), Text c,
       Number (sint (drop_bit 1 ((ucast b :: c_int) AND 6))), Text d] @ args))
   = a @ decimal (unat b mod 2) @ c @ decimal (unat b div 2 mod 4) @ d
       @ concat (map render args)"
  by (simp only: map_append concat_append list.map concat.simps render_bfinal render_btype
        render.simps(1) append_Nil2 append_assoc)

lemma header_in_buffer:
  assumes "(hl :: uint32_t) + 1 \<noteq> 0"
  shows "hl + 1 \<le> len \<longleftrightarrow> hl < len"
proof -
  have "1 + hl \<noteq> 0" using assms by (simp add: add.commute)
  then have "unat (1 + hl) = Suc (unat hl)" by (rule unatSuc)
  then have "unat (hl + 1) = Suc (unat hl)" by (simp add: add.commute)
  then show ?thesis by (simp add: word_le_nat_alt word_less_nat_alt Suc_le_eq)
qed

text \<open>
  C7. In a build with \<open>DEBUG_LOG\<close>, for a buffer of at least \<open>len\<close> bytes and a header
  length whose successor does not wrap around: \<open>PrintDeflateBlockHeader\<close> returns the
  buffer as it was; the only change of the globals is text appended to the log
  stream (\<open>configs\<close>, \<open>log_file\<close> and the choice of the stream are as before); the text
  is empty when \<open>len\<close> is not greater than the header length (or the level is filtered
  out), and otherwise it holds, after the level's prefix, bit 0 of the byte at the
  header offset as \<open>bfinal\<close> and its bits 1 and 2 as \<open>btype\<close>.
\<close>

theorem PrintDeflateBlockHeader_logs_header_bits:
  assumes "unat len \<le> length data"
      and "header_length_of (format_of window_bits) + 1 \<noteq> 0"
  shows "\<exists>g'. PrintDeflateBlockHeader True format_of header_length_of
                level data len window_bits args g = Some (data, g')
           \<and> g' = put (GetLogStream g)
                (if header_length_of (format_of window_bits) < len
                    \<and> level \<noteq> LOG_NONE
                    \<and> unat (configs g ! option_index LOG_LEVEL) \<le> unat (LogLevel_value level)
                 then (case level of LOG_ERROR \<Rightarrow> ''Error: '' | LOG_INFO \<Rightarrow> ''Info: ''
                       | LOG_NONE \<Rightarrow> [])
                      @ ''Deflate block header bfinal=''
                      @ decimal (unat (data ! unat (header_length_of (format_of window_bits))) mod 2)
                      @ '', btype=''
                      @ decimal
                          (unat (data ! unat (header_length_of (format_of window_bits))) div 2 mod 4)
                      @ [CHR 0x0A] @ concat (map render args) @ [CHR 0x0A]
                 else []) g
           \<and> configs g' = configs g \<and> log_file g' = log_file g
           \<and> GetLogStream g' = GetLogStream g"
proof -
  let ?hl = "header_length_of (format_of window_bits)"
  have le: "?hl + 1 \<le> len \<longleftrightarrow> ?hl < len"
    using assms(2) by (rule header_in_buffer)
  have rd: "?hl < len \<Longrightarrow> unat ?hl < length data"
    using assms(1) by (simp add: word_less_nat_alt)
  have flt: "(LogLevel_value level < ucast (configs g ! option_index LOG_LEVEL))
      \<longleftrightarrow> \<not> unat (configs g ! option_index LOG_LEVEL) \<le> unat (LogLevel_value level)"
    by (simp only: level_filter not_le)
  show ?thesis
    unfolding PrintDeflateBlockHeader_def Let_def le flt Log_debug_text header_args_text
    using rd
    by (auto simp add: put_frame put_Nil
             simp del: render.simps option_index.simps LogLevel_value.simps)
qed

text \<open>
  The buffers of the logging tests, opened with window bits 15: \<open>{0x78, 0x9C, 0x03}\<close>
  logs \<open>bfinal=1, btype=1\<close>, and the one-byte buffer \<open>{0x78}\<close> logs nothing.
\<close>

theorem PrintDeflateBlockHeader_logs_header_bits_witness:
  "unat (3 :: uint32_t) \<le> length [0x78, 0x9C, 0x03 :: uint8_t]
   \<and> utils_GetHeaderLength (utils_GetCompressedFormat 15) + 1 \<noteq> 0
   \<and> PrintDeflateBlockHeader True utils_GetCompressedFormat utils_GetHeaderLength
        LOG_INFO [0x78, 0x9C, 0x03] 3 15 [] logging_test_globals
      = Some ([0x78, 0x9C, 0x03],
          logging_test_globals
            \<lparr>log_file_stream :=
               Some \<lparr>is_open = True,
                     written = ''Info: Deflate block header bfinal=1, btype=1''
                               @ [CHR 0x0A, CHR 0x0A]\<rparr>\<rparr>)
   \<and> PrintDeflateBlockHeader True utils_GetCompressedFormat utils_GetHeaderLength
        LOG_INFO [0x78] 1 15 [] logging_test_globals
      = Some ([0x78], logging_test_globals)"
proof -
  have h1: "unat (3 :: uint32_t) \<le> length [0x78, 0x9C, 0x03 :: uint8_t]" by simp
  have h1': "unat (1 :: uint32_t) \<le> length [0x78 :: uint8_t]" by simp
  have hl: "utils_GetHeaderLength (utils_GetCompressedFormat 15) = 2"
    by (simp add: utils_GetCompressedFormat_def)
  have h2: "utils_GetHeaderLength (utils_GetCompressedFormat 15) + 1 \<noteq> 0"
    by (simp add: hl)
  have d: "decimal (Suc 0) = ''1''" by (simp add: decimal.simps)
  from PrintDeflateBlockHeader_logs_header_bits
         [where len = 3 and data = "[0x78, 0x9C, 0x03]"
            and header_length_of = utils_GetHeaderLength
            and format_of = utils_GetCompressedFormat and window_bits = 15
            and level = LOG_INFO and args = "[]" and g = logging_test_globals, OF h1 h2]
       PrintDeflateBlockHeader_logs_header_bits
         [where len = 1 and data = "[0x78]"
            and header_length_of = utils_GetHeaderLength
            and format_of = utils_GetCompressedFormat and window_bits = 15
            and level = LOG_INFO and args = "[]" and g = logging_test_globals, OF h1' h2]
       h1 h2
  show ?thesis
    by (simp add: hl d logging_test_globals_def GetLogStream_def put_def)
qed


section \<open>Properties of the path selector\<close>

text \<open>
  C3. For a draw in \<open>[0,1)\<close>: \<open>select\<close> returns QAT whenever QAT is enabled for the
  direction; otherwise, with IAA enabled, it returns IAA exactly when the draw is
  below the percentage over 100 and Zlib exactly when it is not; otherwise Zlib when
  Zlib is enabled; it returns Undefined exactly when no backend is enabled. With the
  percentage 0 it never returns IAA, with 100 (QAT disabled, IAA enabled) always.
\<close>

theorem select_priority:
  assumes "0 \<le> random_draw" and "random_draw < 1"
  shows "(enabled cfg QAT dir \<longrightarrow> select dir cfg random_draw = QAT)
       \<and> (\<not> enabled cfg QAT dir \<and> enabled cfg IAA dir \<longrightarrow>
            (select dir cfg random_draw = IAA
               \<longleftrightarrow> random_draw < real (iaa_percentage cfg dir) / 100)
          \<and> (select dir cfg random_draw = ZLIB
               \<longleftrightarrow> \<not> random_draw < real (iaa_percentage cfg dir) / 100))
       \<and> (\<not> enabled cfg QAT dir \<and> \<not> enabled cfg IAA dir \<and> enabled cfg ZLIB dir
            \<longrightarrow> select dir cfg random_draw = ZLIB)
       \<and> (select dir cfg random_draw = UNDEFINED
            \<longleftrightarrow> \<not> enabled cfg QAT dir \<and> \<not> enabled cfg IAA dir \<and> \<not> enabled cfg ZLIB dir)
       \<and> (iaa_percentage cfg dir = 0 \<longrightarrow> select dir cfg random_draw \<noteq> IAA)
       \<and> (iaa_percentage cfg dir = 100 \<and> \<not> enabled cfg QAT dir \<and> enabled cfg IAA dir
            \<longrightarrow> select dir cfg random_draw = IAA)"
  using assms by (auto simp add: select_def)

text \<open>
  With the default options of the code QAT is enabled and selected; with IAA and
  Zlib alone, the draw 1/4 selects IAA at 50 and at 100 percent and Zlib at 0.
\<close>

theorem select_priority_witness:
  "(0::real) \<le> 1 / 4 \<and> (1 / 4 :: real) < 1
   \<and> select Compress (snapshot initial_globals) (1 / 4) = QAT
   \<and> select Compress (iaa_only 50) (1 / 4) = IAA
   \<and> select Compress (iaa_only 0) (1 / 4) = ZLIB
   \<and> select Compress (iaa_only 100) (1 / 4) = IAA
   \<and> select Compress nothing_enabled (1 / 4) = UNDEFINED"
  using select_priority [of "1 / 4" "snapshot initial_globals" Compress]
        select_priority [of "1 / 4" "iaa_only 50" Compress]
        select_priority [of "1 / 4" "iaa_only 0" Compress]
        select_priority [of "1 / 4" "iaa_only 100" Compress]
        select_priority [of "1 / 4" nothing_enabled Compress]
  by (simp add: snapshot_def initial_globals_def default_configs_def iaa_only_def
        nothing_enabled_def)

section \<open>Properties of the dispatcher\<close>

text \<open>
  C6. A processing call on a stream that has no record, when no backend is enabled
  for its direction, or whose record has \<open>chosen_path = Undefined\<close>, returns the
  configuration error with zero bytes consumed and produced, and the dispatcher
  (registry and backend calls) is as it was: no state is created and no backend is
  called.
\<close>

theorem process_undefined:
  assumes "(registry d identity = None \<and> select dir cfg random_draw = UNDEFINED)
         \<or> (\<exists>r. registry d identity = Some r \<and> chosen_path r = UNDEFINED)"
  shows "process bk cfg random_draw identity dir input room d = (config_error, d)
       \<and> call_status config_error = CALL_CONFIG_ERROR
       \<and> call_consumed config_error = 0 \<and> call_produced config_error = []"
  using assms by (auto simp add: process_def config_error_def)

theorem process_undefined_witness:
  "registry (empty_dispatcher :: nat Dispatcher) 7 = None
   \<and> select Compress nothing_enabled (1 / 4) = UNDEFINED
   \<and> process test_backends nothing_enabled (1 / 4) 7 Compress [1, 2, 3] 10 empty_dispatcher
       = (\<lparr>call_status = CALL_CONFIG_ERROR, call_consumed = 0, call_produced = []\<rparr>,
          empty_dispatcher)"
proof -
  have h: "registry (empty_dispatcher :: nat Dispatcher) 7 = None
           \<and> select Compress nothing_enabled (1 / 4) = UNDEFINED"
    by (simp add: empty_dispatcher_def select_def nothing_enabled_def)
  then have "(registry (empty_dispatcher :: nat Dispatcher) 7 = None
                \<and> select Compress nothing_enabled (1 / 4) = UNDEFINED)
           \<or> (\<exists>r. registry (empty_dispatcher :: nat Dispatcher) 7 = Some r
                  \<and> chosen_path r = UNDEFINED)"
    by blast
  from process_undefined [OF this, of test_backends "[1, 2, 3]" 10] h
  show ?thesis by (simp add: config_error_def)
qed

subsection \<open>One step of a bound record\<close>

lemma run_step_path:
  assumes "run_step bk cfg i r input room calls = (res, r2, calls2)"
  shows "chosen_path r2 = chosen_path r \<and> fallback_occurred r2 = fallback_occurred r
       \<or> (chosen_path r = QAT \<or> chosen_path r = IAA) \<and> \<not> fallback_occurred r
          \<and> chosen_path r2 = ZLIB \<and> fallback_occurred r2"
  using assms
  by (auto simp add: run_step_def Let_def account_def split: prod.splits if_splits)

lemma run_step_fallback:
  assumes "chosen_path r = QAT \<or> chosen_path r = IAA"
      and "\<not> fallback_occurred r"
      and "backend_step (bk (chosen_path r)) (backend_handle r) input room = (h1, res1)"
      and "status res1 = ERROR"
      and "backend_step (bk ZLIB) (backend_init (bk ZLIB) (direction r) cfg)
             (drop (consumed res1) input) (room - length (produced res1)) = (h3, res2)"
  shows "run_step bk cfg i r input room calls =
           (\<lparr>call_status = map_status (status res2),
             call_consumed = consumed res1 + consumed res2,
             call_produced = produced res1 @ produced res2\<rparr>,
            account (r\<lparr>chosen_path := ZLIB, backend_handle := h3, fallback_occurred := True\<rparr>)
              (consumed res1 + consumed res2) (produced res1 @ produced res2),
            calls @ [(i, Step (chosen_path r) input room), (i, End (chosen_path r)),
                     (i, Init ZLIB),
                     (i, Step ZLIB (drop (consumed res1) input)
                           (room - length (produced res1)))])"
  using assms
  by (auto simp add: run_step_def Let_def)

lemma run_step_no_second_fallback:
  assumes "fallback_occurred r \<or> chosen_path r = ZLIB"
      and "backend_step (bk (chosen_path r)) (backend_handle r) input room = (h1, res1)"
  shows "run_step bk cfg i r input room calls =
           (\<lparr>call_status = map_status (status res1), call_consumed = consumed res1,
             call_produced = produced res1\<rparr>,
            account (r\<lparr>backend_handle := h1\<rparr>) (consumed res1) (produced res1),
            calls @ [(i, Step (chosen_path r) input room)])"
  using assms
  by (cases "status res1") (auto simp add: run_step_def Let_def)

lemma process_registered:
  assumes "registry d i = Some r" and "chosen_path r \<noteq> UNDEFINED"
      and "run_step bk cfg i r input room (backend_calls d) = (res, r2, calls2)"
  shows "process bk cfg draw i dir input room d =
           (res, \<lparr>registry = (registry d)(i \<mapsto> r2), backend_calls = calls2\<rparr>)"
  using assms by (simp add: process_def)

text \<open>
  C5. For a stream whose record is bound to QAT or IAA and has not fallen back:
  when the backend's step reports \<open>ERROR\<close>, the call releases the hardware handle,
  sets \<open>fallback_occurred\<close>, rebinds the record to Zlib with a new software handle and
  replays the step on the input from the offset the hardware attempt consumed, in
  the room its output left; the bytes produced before the error come first in the
  output, unaltered, followed by what the software step produced, and each is counted
  once in \<open>bytes_out\<close>; the caller sees the status of the software step. For a record
  that has fallen back or is bound to Zlib there is one backend step and no other
  backend call, the path does not change, and an \<open>ERROR\<close> of that step is returned
  to the caller as the error status.
\<close>

theorem process_fallback_once:
  assumes "registry d i = Some r" and "chosen_path r \<noteq> UNDEFINED"
      and "backend_step (bk (chosen_path r)) (backend_handle r) input room = (h1, res1)"
      and "backend_step (bk ZLIB) (backend_init (bk ZLIB) (direction r) cfg)
             (drop (consumed res1) input) (room - length (produced res1)) = (h3, res2)"
  shows "((chosen_path r = QAT \<or> chosen_path r = IAA) \<and> \<not> fallback_occurred r
            \<and> status res1 = ERROR \<longrightarrow>
          process bk cfg draw i dir input room d =
            (\<lparr>call_status = map_status (status res2),
              call_consumed = consumed res1 + consumed res2,
              call_produced = produced res1 @ produced res2\<rparr>,
             \<lparr>registry = (registry d)(i \<mapsto>
                 r\<lparr>chosen_path := ZLIB, backend_handle := h3, fallback_occurred := True,
                   bytes_in := bytes_in r + (consumed res1 + consumed res2),
                   bytes_out := bytes_out r + (length (produced res1) + length (produced res2)),
                   first_block_seen :=
                     (first_block_seen r \<or> produced res1 \<noteq> [] \<or> produced res2 \<noteq> [])\<rparr>),
              backend_calls = backend_calls d @
                 [(i, Step (chosen_path r) input room), (i, End (chosen_path r)),
                  (i, Init ZLIB),
                  (i, Step ZLIB (drop (consumed res1) input)
                        (room - length (produced res1)))]\<rparr>))
       \<and> (fallback_occurred r \<or> chosen_path r = ZLIB \<longrightarrow>
          process bk cfg draw i dir input room d =
            (\<lparr>call_status = map_status (status res1), call_consumed = consumed res1,
              call_produced = produced res1\<rparr>,
             \<lparr>registry = (registry d)(i \<mapsto>
                 r\<lparr>backend_handle := h1,
                   bytes_in := bytes_in r + consumed res1,
                   bytes_out := bytes_out r + length (produced res1),
                   first_block_seen := (first_block_seen r \<or> produced res1 \<noteq> [])\<rparr>),
              backend_calls = backend_calls d @ [(i, Step (chosen_path r) input room)]\<rparr>))
       \<and> (chosen_path r = ZLIB \<and> status res1 = ERROR \<longrightarrow>
          call_status (fst (process bk cfg draw i dir input room d)) = CALL_ERROR
          \<and> get_execution_path i (snd (process bk cfg draw i dir input room d)) = ZLIB)"
proof -
  have a: "process bk cfg draw i dir input room d =
            (\<lparr>call_status = map_status (status res2),
              call_consumed = consumed res1 + consumed res2,
              call_produced = produced res1 @ produced res2\<rparr>,
             \<lparr>registry = (registry d)(i \<mapsto>
                 r\<lparr>chosen_path := ZLIB, backend_handle := h3, fallback_occurred := True,
                   bytes_in := bytes_in r + (consumed res1 + consumed res2),
                   bytes_out := bytes_out r + (length (produced res1) + length (produced res2)),
                   first_block_seen :=
                     (first_block_seen r \<or> produced res1 \<noteq> [] \<or> produced res2 \<noteq> [])\<rparr>),
              backend_calls = backend_calls d @
                 [(i, Step (chosen_path r) input room), (i, End (chosen_path r)),
                  (i, Init ZLIB),
                  (i, Step ZLIB (drop (consumed res1) input)
                        (room - length (produced res1)))]\<rparr>)"
    if hw: "chosen_path r = QAT \<or> chosen_path r = IAA" and nf: "\<not> fallback_occurred r"
      and er: "status res1 = ERROR"
    using process_registered
            [OF assms(1) assms(2)
                run_step_fallback [where bk = bk and r = r, OF hw nf assms(3) er assms(4)]]
    by (simp add: account_def)
  have b: "process bk cfg draw i dir input room d =
            (\<lparr>call_status = map_status (status res1), call_consumed = consumed res1,
              call_produced = produced res1\<rparr>,
             \<lparr>registry = (registry d)(i \<mapsto>
                 r\<lparr>backend_handle := h1,
                   bytes_in := bytes_in r + consumed res1,
                   bytes_out := bytes_out r + length (produced res1),
                   first_block_seen := (first_block_seen r \<or> produced res1 \<noteq> [])\<rparr>),
              backend_calls = backend_calls d @ [(i, Step (chosen_path r) input room)]\<rparr>)"
    if fb: "fallback_occurred r \<or> chosen_path r = ZLIB"
    using process_registered
            [OF assms(1) assms(2)
                run_step_no_second_fallback [where bk = bk and r = r, OF fb assms(3)]]
    by (simp add: account_def)
  have c: "call_status (fst (process bk cfg draw i dir input room d)) = CALL_ERROR
          \<and> get_execution_path i (snd (process bk cfg draw i dir input room d)) = ZLIB"
    if z: "chosen_path r = ZLIB" and er: "status res1 = ERROR"
    using b z er by (simp add: get_execution_path_def)
  from a b c show ?thesis by blast
qed

text \<open>
  The test stream after its first call is bound to QAT. At its second call the QAT
  step fails after the byte 4: the software step is replayed on the bytes 5 and 6,
  and the output is 4, 5, 6.
\<close>

lemma first_call_state:
  "snd (process_call test_backends (test_call [1, 2, 3]) empty_dispatcher) = after_first_call"
  by (simp add: process_call_def test_call_def process_def empty_dispatcher_def select_def
        snapshot_def initial_globals_def default_configs_def Let_def create_record_def
        run_step_def test_backends_def account_def after_first_call_def qat_record_def
        numeral_3_eq_3)

theorem process_fallback_once_witness:
  "registry after_first_call 7 = Some qat_record \<and> chosen_path qat_record = QAT
   \<and> \<not> fallback_occurred qat_record
   \<and> backend_step (test_backends QAT) (backend_handle qat_record) [4, 5, 6] 10
       = (2, \<lparr>consumed = 1, produced = [4], status = ERROR\<rparr>)
   \<and> backend_step (test_backends ZLIB) 0 [5, 6] 9
       = (1, \<lparr>consumed = 2, produced = [5, 6], status = OK\<rparr>)
   \<and> fst (process test_backends (snapshot initial_globals) (1 / 4) 7 Compress [4, 5, 6] 10
        after_first_call)
      = \<lparr>call_status = CALL_OK, call_consumed = 3, call_produced = [4, 5, 6]\<rparr>
   \<and> registry (snd (process test_backends (snapshot initial_globals) (1 / 4) 7 Compress
        [4, 5, 6] 10 after_first_call)) 7
      = Some \<lparr>direction = Compress, chosen_path = ZLIB, backend_handle = 1,
              fallback_occurred = True, bytes_in = 6, bytes_out = 6,
              first_block_seen = True\<rparr>
   \<and> backend_calls (snd (process test_backends (snapshot initial_globals) (1 / 4) 7 Compress
        [4, 5, 6] 10 after_first_call))
      = [(7, Init QAT), (7, Step QAT [1, 2, 3] 10), (7, Step QAT [4, 5, 6] 10),
         (7, End QAT), (7, Init ZLIB), (7, Step ZLIB [5, 6] 9)]"
proof -
  have h1: "registry after_first_call 7 = Some qat_record"
    by (simp add: after_first_call_def)
  have h2: "chosen_path qat_record \<noteq> UNDEFINED"
    by (simp add: qat_record_def)
  have h3: "backend_step (test_backends (chosen_path qat_record)) (backend_handle qat_record)
              [4, 5, 6] 10 = (2, \<lparr>consumed = 1, produced = [4], status = ERROR\<rparr>)"
    by (simp add: test_backends_def qat_record_def)
  have h4: "backend_step (test_backends ZLIB)
              (backend_init (test_backends ZLIB) (direction qat_record)
                 (snapshot initial_globals))
              (drop (consumed \<lparr>consumed = 1, produced = [4], status = ERROR\<rparr>) [4, 5, 6])
              (10 - length (produced \<lparr>consumed = 1, produced = [4 :: uint8_t], status = ERROR\<rparr>))
            = (1, \<lparr>consumed = 2, produced = [5, 6], status = OK\<rparr>)"
    by (simp add: test_backends_def)
  have k: "backend_step (test_backends ZLIB) 0 [5, 6] 9
             = (1, \<lparr>consumed = 2, produced = [5, 6], status = OK\<rparr>)"
    by (simp add: test_backends_def)
  have g: "(chosen_path qat_record = QAT \<or> chosen_path qat_record = IAA)
           \<and> \<not> fallback_occurred qat_record
           \<and> status \<lparr>consumed = 1, produced = [4 :: uint8_t], status = ERROR\<rparr> = ERROR"
    by (simp add: qat_record_def)
  note t = process_fallback_once
             [where bk = test_backends and r = qat_record, OF h1 h2 h3 h4, of "1 / 4" Compress]
  note e = t [THEN conjunct1, THEN mp, OF g]
  show ?thesis
    unfolding e using h1 h3 k
    by (simp add: after_first_call_def qat_record_def)
qed

subsection \<open>The path of a stream along a sequence of calls\<close>

lemma process_other:
  assumes "j \<noteq> i"
  shows "registry (snd (process bk cfg draw j dir input room d)) i = registry d i"
  using assms
  by (auto simp add: process_def Let_def split: option.splits prod.splits)

lemma process_path_step:
  "get_execution_path i d = UNDEFINED
   \<or> get_execution_path i (snd (process bk cfg draw j dir input room d)) = get_execution_path i d
   \<or> (get_execution_path i d = QAT \<or> get_execution_path i d = IAA)
      \<and> get_execution_path i (snd (process bk cfg draw j dir input room d)) = ZLIB"
proof (cases "j = i")
  case False
  then show ?thesis
    by (simp add: get_execution_path_def process_other)
next
  case True
  show ?thesis
  proof (cases "registry d i")
    case None
    then show ?thesis by (simp add: get_execution_path_def)
  next
    case (Some r)
    show ?thesis
    proof (cases "chosen_path r = UNDEFINED")
      case True
      then show ?thesis using Some by (simp add: get_execution_path_def)
    next
      case False
      obtain res r2 calls2 where
        rs: "run_step bk cfg i r input room (backend_calls d) = (res, r2, calls2)"
        using prod_cases3 by blast
      have p: "process bk cfg draw i dir input room d =
                 (res, \<lparr>registry = (registry d)(i \<mapsto> r2), backend_calls = calls2\<rparr>)"
        using Some False rs by (rule process_registered)
      from run_step_path [OF rs] show ?thesis
        using Some \<open>j = i\<close> by (auto simp add: p get_execution_path_def)
    qed
  qed
qed

lemma process_new:
  assumes "registry d i = None" and "select dir cfg draw \<noteq> UNDEFINED"
  obtains r1 calls1 res r2 calls2
    where "chosen_path r1 = select dir cfg draw" and "\<not> fallback_occurred r1"
      and "run_step bk cfg i r1 input room calls1 = (res, r2, calls2)"
      and "process bk cfg draw i dir input room d =
             (res, \<lparr>registry = (registry d)(i \<mapsto> r2), backend_calls = calls2\<rparr>)"
proof -
  define r0 where "r0 = create_record bk cfg dir (select dir cfg draw)"
  define primed where "primed \<longleftrightarrow> select dir cfg draw = IAA \<and> prepend_empty_block cfg"
  define r1 where
    "r1 = (if primed
           then r0\<lparr>backend_handle := fst (backend_step (bk IAA) (backend_handle r0) [] 0)\<rparr>
           else r0)"
  define calls1 where
    "calls1 = (if primed
               then (backend_calls d @ [(i, Init (select dir cfg draw))]) @ [(i, Step IAA [] 0)]
               else backend_calls d @ [(i, Init (select dir cfg draw))])"
  obtain res r2 calls2 where rs: "run_step bk cfg i r1 input room calls1 = (res, r2, calls2)"
    using prod_cases3 by blast
  have p1: "chosen_path r1 = select dir cfg draw"
    by (simp add: r1_def r0_def create_record_def)
  have p2: "\<not> fallback_occurred r1"
    by (simp add: r1_def r0_def create_record_def)
  have p3: "process bk cfg draw i dir input room d =
             (res, \<lparr>registry = (registry d)(i \<mapsto> r2), backend_calls = calls2\<rparr>)"
  proof (cases primed)
    case True
    then have "select dir cfg draw = IAA" and "prepend_empty_block cfg"
      by (simp_all add: primed_def)
    then show ?thesis
      using assms rs True by (simp add: process_def Let_def r1_def r0_def calls1_def)
  next
    case False
    then have "\<not> (select dir cfg draw = IAA \<and> prepend_empty_block cfg)"
      by (simp add: primed_def)
    then show ?thesis
      using assms rs False by (auto simp add: process_def Let_def r1_def r0_def calls1_def)
  qed
  from p1 p2 rs p3 show thesis by (rule that)
qed

lemma process_not_config_error:
  assumes "call_status (fst (process bk cfg draw i dir input room d)) \<noteq> CALL_CONFIG_ERROR"
  shows "get_execution_path i (snd (process bk cfg draw i dir input room d)) \<noteq> UNDEFINED"
proof (cases "registry d i")
  case None
  have sel: "select dir cfg draw \<noteq> UNDEFINED"
    using assms None by (auto simp add: process_def Let_def config_error_def)
  from None sel obtain r1 calls1 res r2 calls2
    where a: "chosen_path r1 = select dir cfg draw"
      and rs: "run_step bk cfg i r1 input room calls1 = (res, r2, calls2)"
      and p: "process bk cfg draw i dir input room d =
                (res, \<lparr>registry = (registry d)(i \<mapsto> r2), backend_calls = calls2\<rparr>)"
    by (rule process_new)
  from run_step_path [OF rs] a sel show ?thesis
    by (auto simp add: p get_execution_path_def)
next
  case (Some r)
  show ?thesis
  proof (cases "chosen_path r = UNDEFINED")
    case True
    then show ?thesis using assms Some by (simp add: process_def config_error_def)
  next
    case False
    obtain res r2 calls2 where
      rs: "run_step bk cfg i r input room (backend_calls d) = (res, r2, calls2)"
      using prod_cases3 by blast
    from run_step_path [OF rs] False show ?thesis
      by (auto simp add: process_registered [OF Some False rs] get_execution_path_def)
  qed
qed

lemma process_first_call:
  assumes "registry d i = None"
  shows "get_execution_path i (snd (process bk cfg draw i dir input room d)) = select dir cfg draw
       \<or> (select dir cfg draw = QAT \<or> select dir cfg draw = IAA)
          \<and> get_execution_path i (snd (process bk cfg draw i dir input room d)) = ZLIB"
proof (cases "select dir cfg draw = UNDEFINED")
  case True
  then show ?thesis using assms by (simp add: process_def get_execution_path_def)
next
  case False
  from assms False obtain r1 calls1 res r2 calls2
    where a: "chosen_path r1 = select dir cfg draw"
      and rs: "run_step bk cfg i r1 input room calls1 = (res, r2, calls2)"
      and p: "process bk cfg draw i dir input room d =
                (res, \<lparr>registry = (registry d)(i \<mapsto> r2), backend_calls = calls2\<rparr>)"
    by (rule process_new)
  from run_step_path [OF rs] a show ?thesis
    by (auto simp add: p get_execution_path_def)
qed

lemma history_zlib:
  assumes "get_execution_path i d = ZLIB"
  shows "path_history bk i cs d = replicate (length cs) ZLIB"
  using assms
proof (induction cs arbitrary: d)
  case Nil
  then show ?case by simp
next
  case (Cons c cs)
  have "get_execution_path i (snd (process_call bk c d)) = ZLIB"
    using process_path_step [of i d bk "call_cfg c" "call_draw c" "call_identity c"
            "call_direction c" "call_input c" "call_room c"] Cons.prems
    by (auto simp add: process_call_def)
  then show ?case using Cons.IH by simp
qed

lemma history_bound:
  assumes "get_execution_path i d = p" and "p \<noteq> UNDEFINED"
  shows "\<exists>b c. path_history bk i cs d = replicate b p @ replicate c ZLIB"
  using assms
proof (induction cs arbitrary: d)
  case Nil
  have "path_history bk i [] d = replicate 0 p @ replicate 0 ZLIB" by simp
  then show ?case by blast
next
  case (Cons c cs)
  let ?d = "snd (process_call bk c d)"
  have step: "get_execution_path i ?d = p \<or> get_execution_path i ?d = ZLIB"
    using process_path_step [of i d bk "call_cfg c" "call_draw c" "call_identity c"
            "call_direction c" "call_input c" "call_room c"] Cons.prems
    by (auto simp add: process_call_def)
  show ?case
  proof (cases "get_execution_path i ?d = p")
    case True
    from Cons.IH [OF True Cons.prems(2)] obtain b k
      where "path_history bk i cs ?d = replicate b p @ replicate k ZLIB" by blast
    then have "path_history bk i (c # cs) d = replicate (Suc b) p @ replicate k ZLIB"
      using True by simp
    then show ?thesis by blast
  next
    case False
    then have z: "get_execution_path i ?d = ZLIB" using step by blast
    have "path_history bk i (c # cs) d = replicate 0 p @ replicate (Suc (length cs)) ZLIB"
      using z history_zlib [OF z, of bk cs] by simp
    then show ?thesis by blast
  qed
qed

lemma history_shape:
  "\<exists>a b c p. path_history bk i cs d
      = replicate a UNDEFINED @ replicate b p @ replicate c ZLIB"
proof (induction cs arbitrary: d)
  case Nil
  have "path_history bk i [] d
          = replicate 0 UNDEFINED @ replicate 0 ZLIB @ replicate 0 ZLIB" by simp
  then show ?case by blast
next
  case (Cons c cs)
  let ?d = "snd (process_call bk c d)"
  show ?case
  proof (cases "get_execution_path i ?d = UNDEFINED")
    case True
    from Cons.IH [of ?d] obtain a b k p
      where "path_history bk i cs ?d
               = replicate a UNDEFINED @ replicate b p @ replicate k ZLIB" by blast
    then have "path_history bk i (c # cs) d
                 = replicate (Suc a) UNDEFINED @ replicate b p @ replicate k ZLIB"
      using True by simp
    then show ?thesis by blast
  next
    case False
    from history_bound [OF refl False, of bk cs] obtain b k
      where "path_history bk i cs ?d
               = replicate b (get_execution_path i ?d) @ replicate k ZLIB" by blast
    then have "path_history bk i (c # cs) d
                 = replicate 0 UNDEFINED @ replicate (Suc b) (get_execution_path i ?d)
                     @ replicate k ZLIB"
      by simp
    then show ?thesis by blast
  qed
qed

text \<open>
  C4. Along every sequence of processing calls, from every state of the
  dispatcher, the path of a stream is \<open>Undefined\<close> for some calls (those that report
  the configuration error), then one path, then Zlib: it is assigned once and changes
  at most once afterwards, to Zlib. The call that finds no record assigns what
  \<open>select\<close> returns (or Zlib, when that call already falls back from QAT or IAA); a
  call that does not report the configuration error leaves the path defined; a
  bound path changes only from QAT or IAA to Zlib; Zlib never changes.
\<close>

theorem chosen_path_transitions:
  "(\<exists>a b k p. path_history bk i cs d
       = replicate a UNDEFINED @ replicate b p @ replicate k ZLIB)
   \<and> (call_identity c = i \<and> registry d i = None \<longrightarrow>
        get_execution_path i (snd (process_call bk c d))
          = select (call_direction c) (call_cfg c) (call_draw c)
        \<or> (select (call_direction c) (call_cfg c) (call_draw c) = QAT
            \<or> select (call_direction c) (call_cfg c) (call_draw c) = IAA)
          \<and> get_execution_path i (snd (process_call bk c d)) = ZLIB)
   \<and> (call_identity c = i \<and> call_status (fst (process_call bk c d)) \<noteq> CALL_CONFIG_ERROR
        \<longrightarrow> get_execution_path i (snd (process_call bk c d)) \<noteq> UNDEFINED)
   \<and> (get_execution_path i d \<noteq> UNDEFINED \<longrightarrow>
        get_execution_path i (snd (process_call bk c d)) = get_execution_path i d
        \<or> (get_execution_path i d = QAT \<or> get_execution_path i d = IAA)
          \<and> get_execution_path i (snd (process_call bk c d)) = ZLIB)
   \<and> (get_execution_path i d = ZLIB \<longrightarrow>
        get_execution_path i (snd (process_call bk c d)) = ZLIB)"
proof -
  have s: "get_execution_path i d = UNDEFINED
     \<or> get_execution_path i (snd (process_call bk c d)) = get_execution_path i d
     \<or> (get_execution_path i d = QAT \<or> get_execution_path i d = IAA)
        \<and> get_execution_path i (snd (process_call bk c d)) = ZLIB"
    unfolding process_call_def by (rule process_path_step)
  have f: "get_execution_path i (snd (process_call bk c d))
          = select (call_direction c) (call_cfg c) (call_draw c)
        \<or> (select (call_direction c) (call_cfg c) (call_draw c) = QAT
            \<or> select (call_direction c) (call_cfg c) (call_draw c) = IAA)
          \<and> get_execution_path i (snd (process_call bk c d)) = ZLIB"
    if "call_identity c = i" and "registry d i = None"
    using that process_first_call [of d i bk "call_cfg c" "call_draw c" "call_direction c"
            "call_input c" "call_room c"]
    by (simp add: process_call_def)
  have n: "get_execution_path i (snd (process_call bk c d)) \<noteq> UNDEFINED"
    if "call_identity c = i"
      and "call_status (fst (process_call bk c d)) \<noteq> CALL_CONFIG_ERROR"
    using that process_not_config_error [of bk "call_cfg c" "call_draw c" i
            "call_direction c" "call_input c" "call_room c" d]
    by (simp add: process_call_def)
  from history_shape [of bk i cs d] s f n show ?thesis by auto
qed

text \<open>
  The test stream: bound to QAT by its first call, to Zlib by the fallback of its
  second call, and Zlib at its third.
\<close>

theorem chosen_path_transitions_witness:
  "path_history test_backends 7 [test_call [1, 2, 3], test_call [4, 5, 6], test_call [7]]
     empty_dispatcher = [QAT, ZLIB, ZLIB]
   \<and> (\<exists>a b k p. path_history test_backends 7
                   [test_call [1, 2, 3], test_call [4, 5, 6], test_call [7]] empty_dispatcher
       = replicate a UNDEFINED @ replicate b p @ replicate k ZLIB)
   \<and> call_identity (test_call [4, 5, 6]) = 7
   \<and> call_status (fst (process_call test_backends (test_call [4, 5, 6]) after_first_call))
       \<noteq> CALL_CONFIG_ERROR
   \<and> get_execution_path 7 after_first_call = QAT
   \<and> get_execution_path 7 (snd (process_call test_backends (test_call [4, 5, 6])
        after_first_call)) = ZLIB"
proof -
  have h: "path_history test_backends 7
             [test_call [1, 2, 3], test_call [4, 5, 6], test_call [7]] empty_dispatcher
           = [QAT, ZLIB, ZLIB]"
    by (simp add: process_call_def test_call_def process_def empty_dispatcher_def select_def
          snapshot_def initial_globals_def default_configs_def Let_def create_record_def
          run_step_def test_backends_def account_def get_execution_path_def)
  have p: "get_execution_path 7 after_first_call = QAT"
    by (simp add: get_execution_path_def after_first_call_def qat_record_def)
  have q: "call_status (fst (process_call test_backends (test_call [4, 5, 6]) after_first_call))
             \<noteq> CALL_CONFIG_ERROR
           \<and> get_execution_path 7 (snd (process_call test_backends (test_call [4, 5, 6])
                after_first_call)) = ZLIB"
    by (simp add: process_call_def test_call_def process_def Let_def run_step_def
          test_backends_def account_def get_execution_path_def after_first_call_def
          qat_record_def)
  from chosen_path_transitions
         [of test_backends 7 "[test_call [1, 2, 3], test_call [4, 5, 6], test_call [7]]"
             empty_dispatcher "test_call [4, 5, 6]"]
       h p q
  show ?thesis by (simp add: test_call_def)
qed

end
